theory Spec2Isabelle
  imports Complex_Main "HOL-Library.Char_ord" "HOL-Library.List_Lexorder" "HOL-Library.Log_Nat"
begin

section \<open>Telecom churn notebook: data model\<close>

text \<open>
  The notebook \<^verbatim>\<open>telecom_churn_analysis.ipynb\<close> is straight-line pandas and
  scikit-learn code. The embedding follows its cells:
  \<^item> cell 4 (lines 65-70): the training-path feature engineering;
  \<^item> cell 6 (lines 86-90): the feature matrix \<^verbatim>\<open>X\<close> and its column list;
  \<^item> cell 8 (lines 106-124): the train/evaluate loop over the three classifiers;
  \<^item> lines 164-172: \<^verbatim>\<open>preprocess_input\<close>;
  \<^item> lines 181-184: \<^verbatim>\<open>predict_churn_for_client\<close>;
  \<^item> lines 193-201: the example client.

  A table cell is a number, a string or the missing value (pandas writes both
  \<^verbatim>\<open>None\<close> and \<^verbatim>\<open>np.nan\<close> as NaN and treats them alike in
  \<^verbatim>\<open>fillna\<close>, arithmetic and \<^verbatim>\<open>get_dummies\<close>). Numbers are exact rationals:
  a quotient of two cells is the exact quotient, where the code has the nearest double.
  Only the printed percentage of line 184 is rounded as doubles are, since its digits
  depend on that.
\<close>

datatype cell = Num rat | Str string | NaN

text \<open>
  The exceptions the modelled code can raise. \<open>NotModelled\<close> marks the two places where
  pandas computes a value that the model cannot hold: an infinity (a non-zero number over
  zero), and the label of an indicator column named after a number. The first is never
  reached, since the notebook divides by a column with its zeros replaced; the second needs
  an encoded column with two categories or more, one of them a number.
\<close>

datatype error =
    KeyError string
  | TypeError
  | IndexError
  | AttributeError string
  | LibraryError string
  | NotModelled string

text \<open>
  A DataFrame: its row count (the index) and its columns in order, each a label with the
  cells of that column. The tables the notebook builds (\<^verbatim>\<open>read_csv\<close>, a DataFrame of
  one dict) have distinct labels; should a label repeat, \<open>getitem\<close> reads its first
  column.
\<close>

record frame =
  nrows :: nat
  cols :: "(string \<times> cell list) list"

definition bind_err :: "error + 'a \<Rightarrow> ('a \<Rightarrow> error + 'b) \<Rightarrow> error + 'b" where
  "bind_err m f = (case m of Inl e \<Rightarrow> Inl e | Inr x \<Rightarrow> f x)"

fun collect :: "(error + 'a) list \<Rightarrow> error + 'a list" where
  "collect [] = Inr []"
| "collect (Inl e # _) = Inl e"
| "collect (Inr x # rest) = (case collect rest of Inl e \<Rightarrow> Inl e | Inr xs \<Rightarrow> Inr (x # xs))"

subsection \<open>pandas operations used by the notebook\<close>

definition names :: "frame \<Rightarrow> string list" where
  \<comment> \<open>\<^verbatim>\<open>df.columns\<close>\<close>
  "names df = map fst (cols df)"

definition getitem :: "frame \<Rightarrow> string \<Rightarrow> error + cell list" where
  \<comment> \<open>\<^verbatim>\<open>df[c]\<close>: KeyError when no column has the label\<close>
  "getitem df c = (case map_of (cols df) c of None \<Rightarrow> Inl (KeyError c) | Some xs \<Rightarrow> Inr xs)"

definition setitem :: "frame \<Rightarrow> string \<Rightarrow> cell list \<Rightarrow> frame" where
  \<comment> \<open>\<^verbatim>\<open>df[c] = xs\<close>: overwrite the column in place, or append a new last column\<close>
  "setitem df c xs =
     (if c \<in> set (names df)
      then df\<lparr>cols := map (\<lambda>(n, ys). if n = c then (n, xs) else (n, ys)) (cols df)\<rparr>
      else df\<lparr>cols := cols df @ [(c, xs)]\<rparr>)"

definition fillna :: "cell \<Rightarrow> cell list \<Rightarrow> cell list" where
  "fillna v xs = map (\<lambda>x. if x = NaN then v else x) xs"

definition replace :: "cell \<Rightarrow> cell \<Rightarrow> cell list \<Rightarrow> cell list" where
  \<comment> \<open>\<^verbatim>\<open>s.replace(a, b)\<close>\<close>
  "replace a b xs = map (\<lambda>x. if x = a then b else x) xs"

text \<open>
  Division of two columns. Where an operand is missing the result is missing, whatever the
  other operand is: on columns that hold objects pandas divides only the rows in which
  both operands are present. A string in such a row raises TypeError.
\<close>

fun truediv_cell :: "cell \<Rightarrow> cell \<Rightarrow> error + cell" where
  "truediv_cell NaN _ = Inr NaN"
| "truediv_cell _ NaN = Inr NaN"
| "truediv_cell (Str _) _ = Inl TypeError"
| "truediv_cell _ (Str _) = Inl TypeError"
| "truediv_cell (Num a) (Num b) =
     (if b = 0 then (if a = 0 then Inr NaN else Inl (NotModelled ''inf''))
      else Inr (Num (a / b)))"

definition truediv :: "cell list \<Rightarrow> cell list \<Rightarrow> error + cell list" where
  \<comment> \<open>\<^verbatim>\<open>s / t\<close> on two columns of one table, element by element\<close>
  "truediv xs ys = collect (map2 truediv_cell xs ys)"

definition categories :: "cell list \<Rightarrow> cell list" where
  \<comment> \<open>the distinct non-missing values of a column\<close>
  "categories xs = remdups (filter (\<lambda>x. x \<noteq> NaN) xs)"

definition levels :: "cell list \<Rightarrow> string list" where
  \<comment> \<open>the categories of a text column, sorted as Python sorts strings\<close>
  "levels xs = sort (concat (map (\<lambda>x. case x of Str s \<Rightarrow> [s] | _ \<Rightarrow> []) (categories xs)))"

definition is_num :: "cell \<Rightarrow> bool" where
  "is_num x = (case x of Num _ \<Rightarrow> True | _ \<Rightarrow> False)"

definition is_str :: "cell \<Rightarrow> bool" where
  "is_str x = (case x of Str _ \<Rightarrow> True | _ \<Rightarrow> False)"

definition get_dummies_1d :: "string \<Rightarrow> cell list \<Rightarrow> error + (string \<times> cell list) list" where
  \<comment> \<open>one column with \<^verbatim>\<open>drop_first=True\<close>: no category or a single category gives
      no indicator column; otherwise one 0/1 column per sorted category but the first,
      named prefix, underscore, category\<close>
  "get_dummies_1d prefix xs =
     (let cats = categories xs in
      if length cats = 0 then Inr []
      else if length cats = 1 then Inr []
      else if list_ex is_num cats then Inl (NotModelled ''numeric category'')
      else Inr (map (\<lambda>l. (prefix @ ''_'' @ l, map (\<lambda>x. if x = Str l then Num 1 else Num 0) xs))
                    (tl (levels xs))))"

definition get_dummies :: "frame \<Rightarrow> string list \<Rightarrow> error + frame" where
  \<comment> \<open>\<^verbatim>\<open>pd.get_dummies(df, columns=cs, drop_first=True)\<close>: the other columns in
      their order, then the indicator columns of each encoded column in the order of
      \<^verbatim>\<open>cs\<close>\<close>
  "get_dummies df cs =
     bind_err (collect (map (getitem df) cs)) (\<lambda>data.
     bind_err (collect (map2 get_dummies_1d cs data)) (\<lambda>dummies.
       Inr (df\<lparr>cols := filter (\<lambda>(n, _). n \<notin> set cs) (cols df) @ concat dummies\<rparr>)))"

definition drop_columns :: "frame \<Rightarrow> string list \<Rightarrow> error + frame" where
  \<comment> \<open>\<^verbatim>\<open>df.drop(cs, axis=1)\<close>: KeyError when a label is not a column\<close>
  "drop_columns df cs =
     (case filter (\<lambda>c. c \<notin> set (names df)) cs of
        c # _ \<Rightarrow> Inl (KeyError c)
      | [] \<Rightarrow> Inr (df\<lparr>cols := filter (\<lambda>(n, _). n \<notin> set cs) (cols df)\<rparr>))"

definition select :: "frame \<Rightarrow> string list \<Rightarrow> error + frame" where
  \<comment> \<open>\<^verbatim>\<open>df[cs]\<close> with a list of labels: the named columns in the order of the list\<close>
  "select df cs =
     (case filter (\<lambda>c. c \<notin> set (names df)) cs of
        c # _ \<Rightarrow> Inl (KeyError c)
      | [] \<Rightarrow> Inr (df\<lparr>cols := concat (map (\<lambda>c. filter (\<lambda>(n, _). n = c) (cols df)) cs)\<rparr>))"

subsection \<open>The feature rules shared by both paths\<close>

definition avg_monthly_charge :: "frame \<Rightarrow> error + cell list" where
  \<comment> \<open>lines 67 and 166: \<^verbatim>\<open>df['total_charges'] / df['tenure'].replace(0, np.nan)\<close>\<close>
  "avg_monthly_charge df =
     bind_err (getitem df ''total_charges'') (\<lambda>total.
     bind_err (getitem df ''tenure'') (\<lambda>tenure.
       truediv total (replace (Num 0) NaN tenure)))"

definition is_short_contract :: "cell \<Rightarrow> cell" where
  \<comment> \<open>lines 68 and 167: \<^verbatim>\<open>lambda x: 1 if x == 'month-to-month' else 0\<close>\<close>
  "is_short_contract x = (if x = Str ''month-to-month'' then Num 1 else Num 0)"

definition churn_label :: "cell \<Rightarrow> cell" where
  \<comment> \<open>line 70: \<^verbatim>\<open>.map({'No': 0, 'Yes': 1})\<close>; a value that is no key maps to NaN\<close>
  "churn_label x = (if x = Str ''No'' then Num 0 else if x = Str ''Yes'' then Num 1 else NaN)"

subsection \<open>Training path (cells 4 and 6)\<close>

definition training_features :: "frame \<Rightarrow> error + frame" where
  \<comment> \<open>lines 66-69, on the table read from the CSV file\<close>
  "training_features df =
     bind_err (getitem df ''internet_service'') (\<lambda>isv.
     let df1 = setitem df ''internet_service'' (fillna (Str ''unknown'') isv) in
     bind_err (avg_monthly_charge df1) (\<lambda>avg.
     let df2 = setitem df1 ''avg_monthly_charge'' avg in
     bind_err (getitem df2 ''contract_type'') (\<lambda>ct.
     let df3 = setitem df2 ''is_short_contract'' (map is_short_contract ct) in
     get_dummies df3 [''contract_type'', ''internet_service''])))"

definition training_preprocess :: "frame \<Rightarrow> error + frame" where
  \<comment> \<open>lines 66-70: the features, then the label mapping\<close>
  "training_preprocess df =
     bind_err (training_features df) (\<lambda>df4.
     bind_err (getitem df4 ''churn'') (\<lambda>churn.
       Inr (setitem df4 ''churn'' (map churn_label churn))))"

definition feature_matrix :: "frame \<Rightarrow> error + frame" where
  \<comment> \<open>line 86: \<^verbatim>\<open>X = df.drop(['customer_id', 'churn'], axis=1)\<close>\<close>
  "feature_matrix df = drop_columns df [''customer_id'', ''churn'']"

definition reference_columns_of :: "frame \<Rightarrow> error + string list" where
  \<comment> \<open>lines 66-70, 86 and 199: \<^verbatim>\<open>list(X.columns)\<close> for the table read from the file\<close>
  "reference_columns_of df =
     bind_err (training_preprocess df) (\<lambda>df'.
     bind_err (feature_matrix df') (\<lambda>X. Inr (names X)))"

subsection \<open>Inference path (lines 164-184)\<close>

text \<open>
  \<^verbatim>\<open>preprocess_input\<close> writes into the table object it is given, so tables live in a
  store: a list of table objects, a reference being a position in it. A new object is
  appended; Python never frees an object that is still referenced. Lines 165-167 write
  into the object: a column assignment does, and so does \<^verbatim>\<open>fillna(..., inplace=True)\<close>
  on \<^verbatim>\<open>new_client['internet_service']\<close> in the pandas releases the notebook's
  Python 3.8 kernel can run (those before copy-on-write). \<^verbatim>\<open>get_dummies\<close> and the
  column selection of line 172 each build a new table. An exception leaves the store as
  the statements before it left it.
\<close>

type_synonym ref = nat
type_synonym store = "frame list"

definition alloc :: "frame \<Rightarrow> store \<Rightarrow> ref \<times> store" where
  "alloc df h = (length h, h @ [df])"

definition align :: "string list \<Rightarrow> frame \<Rightarrow> frame" where
  \<comment> \<open>lines 169-171: every reference column that is no column yet is added, filled with 0\<close>
  "align reference_columns df =
     fold (\<lambda>col d. if col \<notin> set (names d) then setitem d col (replicate (nrows d) (Num 0)) else d)
          reference_columns df"

definition preprocess_input :: "ref \<Rightarrow> string list \<Rightarrow> store \<Rightarrow> (error + ref) \<times> store" where
  "preprocess_input new_client reference_columns h =
     (case getitem (h ! new_client) ''internet_service'' of
        Inl e \<Rightarrow> (Inl e, h)
      | Inr isv \<Rightarrow>
     let h1 = h[new_client := setitem (h ! new_client) ''internet_service''
                                (fillna (Str ''unknown'') isv)] in
     (case avg_monthly_charge (h1 ! new_client) of
        Inl e \<Rightarrow> (Inl e, h1)
      | Inr avg \<Rightarrow>
     let h2 = h1[new_client := setitem (h1 ! new_client) ''avg_monthly_charge'' avg] in
     (case getitem (h2 ! new_client) ''contract_type'' of
        Inl e \<Rightarrow> (Inl e, h2)
      | Inr ct \<Rightarrow>
     let h3 = h2[new_client := setitem (h2 ! new_client) ''is_short_contract''
                                 (map is_short_contract ct)] in
     (case get_dummies (h3 ! new_client) [''contract_type'', ''internet_service''] of
        Inl e \<Rightarrow> (Inl e, h3)
      | Inr dummies \<Rightarrow>
     let (encoded, h4) = alloc dummies h3;
         h5 = h4[encoded := align reference_columns (h4 ! encoded)] in
     (case select (h5 ! encoded) reference_columns of
        Inl e \<Rightarrow> (Inl e, h5)
      | Inr out \<Rightarrow> let (res, h6) = alloc out h5 in (Inr res, h6))))))"

text \<open>
  A fitted classifier, as far as the notebook uses it: \<^verbatim>\<open>predict\<close>, and
  \<^verbatim>\<open>predict_proba\<close> when the class has it (line 119 asks with \<^verbatim>\<open>hasattr\<close>). The
  probability array of a binary classifier has one row per table row and the two columns
  (class 0, class 1).
\<close>

record classifier =
  predict :: "frame \<Rightarrow> error + cell list"
  predict_proba :: "(frame \<Rightarrow> error + (rat \<times> rat) list) option"

fun digits :: "nat \<Rightarrow> string" where
  "digits n = (if n < 10 then [char_of (48 + n)] else digits (n div 10) @ [char_of (48 + n mod 10)])"

declare digits.simps [simp del]

definition round_half_even :: "rat \<Rightarrow> int" where
  "round_half_even q =
     (let f = \<lfloor>q\<rfloor>; d = q - of_int f in
      if d < 1 / 2 then f else if 1 / 2 < d then f + 1 else if even f then f else f + 1)"

text \<open>
  \<^verbatim>\<open>f"{prob:.2%}"\<close> multiplies the double \<^verbatim>\<open>prob\<close> by 100, which rounds the
  product to a double, and prints that double with two decimals, rounding its exact value
  half to even. \<open>round_double\<close> is the nearest double of a rational (ties to the even
  mantissa of 53 bits, subnormal below \<open>2 ^ -1022\<close>); \<open>floor_log2\<close> is the binary
  exponent of a positive rational. A probability that is no double is read as the
  nearest one, as a literal is. Doubles beyond the largest finite one, \<^verbatim>\<open>nan\<close> and
  the sign of zero are not modelled; a probability is between 0 and 1.
\<close>

definition floor_log2 :: "rat \<Rightarrow> int" where
  "floor_log2 a =
     (let (n, d) = quotient_of a; e = bitlen n - bitlen d
      in if a < power_int 2 e then e - 1 else e)"

definition round_double :: "rat \<Rightarrow> rat" where
  "round_double q =
     (if q = 0 then 0
      else let a = \<bar>q\<bar>; s = max (floor_log2 a - 52) (- 1074)
           in sgn q * of_int (round_half_even (a / power_int 2 s)) * power_int 2 s)"

definition format_percent :: "rat \<Rightarrow> string" where
  "format_percent p =
     (let x = round_double (round_double p * 100);
          n = nat \<bar>round_half_even (x * 100)\<bar> in
      (if p < 0 then ''-'' else '''') @ digits (n div 100) @ ''.''
        @ digits (n mod 100 div 10) @ digits (n mod 10) @ ''%'')"

definition client_features :: "ref \<Rightarrow> string list \<Rightarrow> store \<Rightarrow> (error + ref) \<times> store" where
  \<comment> \<open>line 182: \<^verbatim>\<open>preprocess_input(new_client_raw.copy(), reference_columns)\<close>\<close>
  "client_features new_client_raw reference_columns h =
     (let (copy, h1) = alloc (h ! new_client_raw) h in
      preprocess_input copy reference_columns h1)"

definition churn_probability :: "classifier \<Rightarrow> ref \<Rightarrow> string list \<Rightarrow> store \<Rightarrow> (error + rat) \<times> store" where
  \<comment> \<open>lines 182-183; \<^verbatim>\<open>[:, 1]\<close> takes the class-1 column, \<^verbatim>\<open>[0]\<close> its first entry\<close>
  "churn_probability model new_client_raw reference_columns h =
     (case client_features new_client_raw reference_columns h of
        (Inl e, h2) \<Rightarrow> (Inl e, h2)
      | (Inr new_client, h2) \<Rightarrow>
          (case predict_proba model of
             None \<Rightarrow> (Inl (AttributeError ''predict_proba''), h2)
           | Some proba \<Rightarrow>
               (case proba (h2 ! new_client) of
                  Inl e \<Rightarrow> (Inl e, h2)
                | Inr rows \<Rightarrow>
                    (case map snd rows of
                       [] \<Rightarrow> (Inl IndexError, h2)
                     | prob # _ \<Rightarrow> (Inr prob, h2)))))"

definition predict_churn_for_client :: "classifier \<Rightarrow> ref \<Rightarrow> string list \<Rightarrow> store \<Rightarrow> (error + string) \<times> store" where
  \<comment> \<open>lines 181-184\<close>
  "predict_churn_for_client model new_client_raw reference_columns h =
     (case churn_probability model new_client_raw reference_columns h of
        (Inl e, h') \<Rightarrow> (Inl e, h')
      | (Inr prob, h') \<Rightarrow> (Inr (''Customer Churn Probability: '' @ format_percent prob), h'))"

subsection \<open>Train and evaluate (cell 8, lines 106-124)\<close>

text \<open>
  The classifiers, the metrics and the cross-validation are library code; the loop only
  calls them. They are parameters of the model: an estimator is what \<^verbatim>\<open>fit\<close> does
  with it (an exception, or the fitted classifier), and the library functions are the
  fields of \<open>sklearn\<close>. What the loop prints is kept as a list of items, the numbers
  unformatted.
\<close>

record estimator =
  fit :: "frame \<Rightarrow> cell list \<Rightarrow> error + classifier"

record sklearn =
  confusion_matrix :: "cell list \<Rightarrow> cell list \<Rightarrow> error + nat list list"
  classification_report :: "cell list \<Rightarrow> cell list \<Rightarrow> error + string"
  roc_auc_score :: "cell list \<Rightarrow> rat list \<Rightarrow> error + rat"
  cross_val_score :: "estimator \<Rightarrow> frame \<Rightarrow> cell list \<Rightarrow> error + rat list"

record dataset =
  X_train :: frame
  y_train :: "cell list"
  X_test :: frame
  y_test :: "cell list"
  X_resampled :: frame
  y_resampled :: "cell list"

datatype item =
    Header string
  | Label string
  | Matrix "nat list list"
  | Report string
  | RocAuc rat
  | CvScores "rat list"
  | AverageF1 cell

text \<open>
  The state of the run: the printed output so far, and the classifiers fitted so far
  under their names (the entries of \<^verbatim>\<open>models\<close> that \<^verbatim>\<open>fit\<close> has completed on).
\<close>

record run =
  printed :: "item list"
  fitted :: "(string \<times> classifier) list"

definition emit :: "item list \<Rightarrow> run \<Rightarrow> run" where
  "emit xs s = s\<lparr>printed := printed s @ xs\<rparr>"

definition mean :: "rat list \<Rightarrow> cell" where
  \<comment> \<open>\<^verbatim>\<open>cv_scores.mean()\<close>; numpy gives nan for an empty array\<close>
  "mean xs = (if xs = [] then NaN else Num (sum_list xs / of_nat (length xs)))"

definition roc_auc :: "sklearn \<Rightarrow> dataset \<Rightarrow> classifier \<Rightarrow> run \<Rightarrow> error option \<times> run" where
  \<comment> \<open>lines 119-121\<close>
  "roc_auc lib d model s =
     (case predict_proba model of
        None \<Rightarrow> (None, s)
      | Some proba \<Rightarrow>
          (case proba (X_test d) of
             Inl e \<Rightarrow> (Some e, s)
           | Inr rows \<Rightarrow>
               (case roc_auc_score lib (y_test d) (map snd rows) of
                  Inl e \<Rightarrow> (Some e, s)
                | Inr auc \<Rightarrow> (None, emit [RocAuc auc] s))))"

definition evaluate_model :: "sklearn \<Rightarrow> dataset \<Rightarrow> string \<Rightarrow> estimator \<Rightarrow> run \<Rightarrow> error option \<times> run" where
  \<comment> \<open>the loop body, lines 112-124; an exception leaves it with the state reached\<close>
  "evaluate_model lib d name model s =
     (let s1 = emit [Header name] s in
      case fit model (X_train d) (y_train d) of
        Inl e \<Rightarrow> (Some e, s1)
      | Inr m \<Rightarrow>
     let s2 = s1\<lparr>fitted := fitted s1 @ [(name, m)]\<rparr> in
     (case predict m (X_test d) of
        Inl e \<Rightarrow> (Some e, s2)
      | Inr y_pred \<Rightarrow>
     let s3 = emit [Label ''Confusion Matrix:''] s2 in
     (case confusion_matrix lib (y_test d) y_pred of
        Inl e \<Rightarrow> (Some e, s3)
      | Inr cm \<Rightarrow>
     let s4 = emit [Matrix cm, Label ''Classification Report:''] s3 in
     (case classification_report lib (y_test d) y_pred of
        Inl e \<Rightarrow> (Some e, s4)
      | Inr rep \<Rightarrow>
     (case roc_auc lib d m (emit [Report rep] s4) of
        (Some e, s5) \<Rightarrow> (Some e, s5)
      | (None, s5) \<Rightarrow>
     (case cross_val_score lib model (X_resampled d) (y_resampled d) of
        Inl e \<Rightarrow> (Some e, s5)
      | Inr cv_scores \<Rightarrow> (None, emit [CvScores cv_scores, AverageF1 (mean cv_scores)] s5)))))))"

fun train_and_evaluate :: "sklearn \<Rightarrow> dataset \<Rightarrow> (string \<times> estimator) list \<Rightarrow> run \<Rightarrow> error option \<times> run" where
  \<comment> \<open>line 111: \<^verbatim>\<open>for name, model in models.items()\<close>, in insertion order, with no
      exception handler around the body\<close>
  "train_and_evaluate lib d [] s = (None, s)"
| "train_and_evaluate lib d ((name, model) # rest) s =
     (case evaluate_model lib d name model s of
        (Some e, s') \<Rightarrow> (Some e, s')
      | (None, s') \<Rightarrow> train_and_evaluate lib d rest s')"

section \<open>Notions used to state the properties\<close>

text \<open>
  The four raw columns \<^verbatim>\<open>preprocess_input\<close> reads (section 4.4 of the
  specification calls them required).
\<close>

definition required_columns :: "string list" where
  "required_columns = [''tenure'', ''total_charges'', ''contract_type'', ''internet_service'']"

text \<open>
  A table as \<^verbatim>\<open>read_csv\<close> or \<^verbatim>\<open>pd.DataFrame([...])\<close> builds it: distinct labels,
  every column as long as the index. A record is such a table with one row. A numeric
  column holds no string (it may be absent; \<open>getitem\<close> then raises before its cells
  matter).
\<close>

definition wf_frame :: "frame \<Rightarrow> bool" where
  "wf_frame df = (distinct (names df) \<and> list_all (\<lambda>(n, xs). length xs = nrows df) (cols df))"

definition is_record :: "frame \<Rightarrow> bool" where
  "is_record df = (wf_frame df \<and> nrows df = 1)"

definition numeric_column :: "frame \<Rightarrow> string \<Rightarrow> bool" where
  "numeric_column df c = (case getitem df c of Inl _ \<Rightarrow> True | Inr xs \<Rightarrow> \<not> list_ex is_str xs)"

definition row_of :: "frame \<Rightarrow> nat \<Rightarrow> frame" where
  \<comment> \<open>row \<open>i\<close> of a table as a one-row table (\<open>i\<close> below the row count)\<close>
  "row_of df i = \<lparr>nrows = 1, cols = map (\<lambda>(n, xs). (n, [xs ! i])) (cols df)\<rparr>"

text \<open>
  \<open>rate\<close> is the average charge as section 4.1 of the specification words it: total over
  tenure, missing when tenure is zero or an operand is missing. \<open>engineered\<close> is the table
  after the three assignments of lines 66-68 (165-167). \<open>aligned_features\<close> is the value
  \<^verbatim>\<open>preprocess_input\<close> returns, as a function of the table it is given;
  \<open>feature_row\<close> is the table line 182 binds to \<^verbatim>\<open>new_client\<close>, and
  \<open>positive_probability\<close> the number line 183 reads off the classifier.
\<close>

definition text_division :: "cell \<Rightarrow> cell \<Rightarrow> bool" where
  \<comment> \<open>a row in which line 166 divides a string: both operands present, tenure not 0\<close>
  "text_division c t = (c \<noteq> NaN \<and> t \<noteq> NaN \<and> t \<noteq> Num 0 \<and> (is_str c \<or> is_str t))"

definition divides_text :: "frame \<Rightarrow> bool" where
  \<comment> \<open>the table has \<^verbatim>\<open>total_charges\<close> and \<^verbatim>\<open>tenure\<close> and such a row\<close>
  "divides_text df =
     (case getitem df ''total_charges'' of
        Inl _ \<Rightarrow> False
      | Inr charges \<Rightarrow>
          (case getitem df ''tenure'' of
             Inl _ \<Rightarrow> False
           | Inr tenure \<Rightarrow> list_ex (\<lambda>(c, t). text_division c t) (zip charges tenure)))"

definition rate :: "cell \<Rightarrow> cell \<Rightarrow> cell" where
  "rate c t = (case (c, t) of (Num a, Num b) \<Rightarrow> if b = 0 then NaN else Num (a / b) | _ \<Rightarrow> NaN)"

definition engineered :: "frame \<Rightarrow> cell list \<Rightarrow> cell list \<Rightarrow> cell list \<Rightarrow> frame" where
  "engineered df isv avg ct =
     setitem (setitem (setitem df ''internet_service'' (fillna (Str ''unknown'') isv))
                ''avg_monthly_charge'' avg)
       ''is_short_contract'' (map is_short_contract ct)"

definition aligned_features :: "string list \<Rightarrow> frame \<Rightarrow> error + frame" where
  "aligned_features ref df = bind_err (training_features df) (\<lambda>d. select (align ref d) ref)"

definition feature_row :: "ref \<Rightarrow> string list \<Rightarrow> store \<Rightarrow> error + frame" where
  "feature_row raw ref h =
     (case client_features raw ref h of (Inl e, _) \<Rightarrow> Inl e | (Inr r, h') \<Rightarrow> Inr (h' ! r))"

definition positive_probability :: "classifier \<Rightarrow> frame \<Rightarrow> error + rat" where
  "positive_probability model row =
     (case predict_proba model of
        None \<Rightarrow> Inl (AttributeError ''predict_proba'')
      | Some proba \<Rightarrow>
          bind_err (proba row) (\<lambda>rows.
            case map snd rows of [] \<Rightarrow> Inl IndexError | prob # _ \<Rightarrow> Inr prob))"

subsection \<open>Concrete inputs\<close>

text \<open>
  The client of lines 193-198, a three-customer training table with the categories
  month-to-month, one-year, two-year and dsl, fiber optic, missing, and the column list
  that table trains (line 199). \<open>mislabelled_batch\<close> is the same table with a mistyped
  and a numeric churn label. \<open>example_client_after\<close> is the client's table once
  lines 165-167 have run on it, \<open>example_row\<close> the row line 172 returns for it,
  \<open>example_X\<close> the feature matrix of the training table, and
  \<open>client_without_contract\<close> the client with its \<^verbatim>\<open>contract_type\<close> left out.
  \<open>client_text_charges\<close> also lacks \<^verbatim>\<open>contract_type\<close> and has its
  \<^verbatim>\<open>total_charges\<close> as text; \<open>new_client_text_charges\<close> is the same with tenure 0.
  \<open>client_missing_internet\<close> is the client with no \<^verbatim>\<open>internet_service\<close> value, and
  \<open>client_missing_internet_after\<close> that table once lines 165-167 have run on it. The toy
  classifier and library stand for fitted scikit-learn objects.
\<close>

definition example_client :: frame where
  "example_client = \<lparr>nrows = 1, cols =
     [(''tenure'', [Num 5]), (''total_charges'', [Num 250]),
      (''contract_type'', [Str ''month-to-month'']),
      (''internet_service'', [Str ''fiber optic''])]\<rparr>"

definition example_batch :: frame where
  "example_batch = \<lparr>nrows = 3, cols =
     [(''customer_id'', [Num 1, Num 2, Num 3]),
      (''tenure'', [Num 5, Num 12, Num 0]),
      (''total_charges'', [Num 250, Num 600, Num 80]),
      (''contract_type'', [Str ''month-to-month'', Str ''one-year'', Str ''two-year'']),
      (''internet_service'', [Str ''fiber optic'', Str ''dsl'', NaN]),
      (''churn'', [Str ''Yes'', Str ''No'', Str ''No''])]\<rparr>"

definition mislabelled_batch :: frame where
  "mislabelled_batch = \<lparr>nrows = 3, cols =
     [(''customer_id'', [Num 1, Num 2, Num 3]),
      (''tenure'', [Num 5, Num 12, Num 0]),
      (''total_charges'', [Num 250, Num 600, Num 80]),
      (''contract_type'', [Str ''month-to-month'', Str ''one-year'', Str ''two-year'']),
      (''internet_service'', [Str ''fiber optic'', Str ''dsl'', NaN]),
      (''churn'', [Str ''Yes'', Str ''no'', Num 1])]\<rparr>"

definition example_reference :: "string list" where
  "example_reference =
     [''tenure'', ''total_charges'', ''avg_monthly_charge'', ''is_short_contract'',
      ''contract_type_one-year'', ''contract_type_two-year'',
      ''internet_service_fiber optic'', ''internet_service_unknown'']"

definition example_client_after :: frame where
  "example_client_after = \<lparr>nrows = 1, cols =
     [(''tenure'', [Num 5]), (''total_charges'', [Num 250]),
      (''contract_type'', [Str ''month-to-month'']),
      (''internet_service'', [Str ''fiber optic'']),
      (''avg_monthly_charge'', [Num 50]), (''is_short_contract'', [Num 1])]\<rparr>"

definition example_row :: frame where
  "example_row = \<lparr>nrows = 1, cols =
     [(''tenure'', [Num 5]), (''total_charges'', [Num 250]),
      (''avg_monthly_charge'', [Num 50]), (''is_short_contract'', [Num 1]),
      (''contract_type_one-year'', [Num 0]), (''contract_type_two-year'', [Num 0]),
      (''internet_service_fiber optic'', [Num 0]), (''internet_service_unknown'', [Num 0])]\<rparr>"

definition client_without_contract :: frame where
  "client_without_contract = \<lparr>nrows = 1, cols =
     [(''tenure'', [Num 5]), (''total_charges'', [Num 250]),
      (''internet_service'', [Str ''fiber optic''])]\<rparr>"

definition client_text_charges :: frame where
  "client_text_charges = \<lparr>nrows = 1, cols =
     [(''tenure'', [Num 5]), (''total_charges'', [Str ''250'']),
      (''internet_service'', [Str ''dsl''])]\<rparr>"

definition new_client_text_charges :: frame where
  "new_client_text_charges = \<lparr>nrows = 1, cols =
     [(''tenure'', [Num 0]), (''total_charges'', [Str ''250'']),
      (''internet_service'', [Str ''dsl''])]\<rparr>"

definition client_missing_internet :: frame where
  "client_missing_internet = \<lparr>nrows = 1, cols =
     [(''tenure'', [Num 5]), (''total_charges'', [Num 250]),
      (''contract_type'', [Str ''month-to-month'']),
      (''internet_service'', [NaN])]\<rparr>"

definition client_missing_internet_after :: frame where
  "client_missing_internet_after = \<lparr>nrows = 1, cols =
     [(''tenure'', [Num 5]), (''total_charges'', [Num 250]),
      (''contract_type'', [Str ''month-to-month'']),
      (''internet_service'', [Str ''unknown'']),
      (''avg_monthly_charge'', [Num 50]), (''is_short_contract'', [Num 1])]\<rparr>"

definition example_X :: frame where
  "example_X = \<lparr>nrows = 3, cols =
     [(''tenure'', [Num 5, Num 12, Num 0]),
      (''total_charges'', [Num 250, Num 600, Num 80]),
      (''avg_monthly_charge'', [Num 50, Num 50, NaN]),
      (''is_short_contract'', [Num 1, Num 0, Num 0]),
      (''contract_type_one-year'', [Num 0, Num 1, Num 0]),
      (''contract_type_two-year'', [Num 0, Num 0, Num 1]),
      (''internet_service_fiber optic'', [Num 1, Num 0, Num 0]),
      (''internet_service_unknown'', [Num 0, Num 0, Num 1])]\<rparr>"

definition toy_model :: classifier where
  "toy_model =
     \<lparr>predict = (\<lambda>df. Inr (replicate (nrows df) (Num 1))),
      predict_proba = Some (\<lambda>df. Inr (replicate (nrows df) (133 / 500, 367 / 500)))\<rparr>"

definition toy_sklearn :: sklearn where
  "toy_sklearn =
     \<lparr>confusion_matrix = (\<lambda>_ _. Inr [[1, 0], [0, 1]]),
      classification_report = (\<lambda>_ _. Inr ''report''),
      roc_auc_score = (\<lambda>_ _. Inr 1),
      cross_val_score = (\<lambda>_ _ _. Inr [1, 1, 1, 1, 1])\<rparr>"

definition toy_dataset :: dataset where
  "toy_dataset =
     \<lparr>X_train = example_client, y_train = [Num 1],
      X_test = example_client, y_test = [Num 1],
      X_resampled = example_client, y_resampled = [Num 1]\<rparr>"

definition fits_fine :: estimator where
  "fits_fine = \<lparr>fit = (\<lambda>_ _. Inr toy_model)\<rparr>"

definition fails_to_fit :: estimator where
  "fails_to_fit = \<lparr>fit = (\<lambda>_ _. Inl (LibraryError ''fit did not converge''))\<rparr>"

definition example_models :: "(string \<times> estimator) list" where
  "example_models =
     [(''Random Forest'', fits_fine),
      (''Logistic Regression'', fails_to_fit),
      (''Gradient Boosting'', fits_fine)]"

definition start :: run where
  "start = \<lparr>printed = [], fitted = []\<rparr>"

section \<open>Lemmas about the table operations\<close>

lemma bind_err_Inr_iff:
  "bind_err m f = Inr y \<longleftrightarrow> (\<exists>x. m = Inr x \<and> f x = Inr y)"
  by (cases m) (simp_all add: bind_err_def)

lemma bind_err_Inl_iff:
  "bind_err m f = Inl e \<longleftrightarrow> m = Inl e \<or> (\<exists>x. m = Inr x \<and> f x = Inl e)"
  by (cases m) (simp_all add: bind_err_def)

lemma getitem_Inr_names: "getitem df c = Inr xs \<Longrightarrow> c \<in> set (names df)"
  by (auto simp: getitem_def names_def split: option.splits dest: map_of_SomeD intro: rev_image_eqI)

lemma getitem_Inl: "getitem df c = Inl e \<Longrightarrow> e = KeyError c \<and> c \<notin> set (names df)"
  by (auto simp: getitem_def names_def map_of_eq_None_iff split: option.splits)

lemma getitem_total: "c \<in> set (names df) \<Longrightarrow> \<exists>xs. getitem df c = Inr xs"
  by (cases "getitem df c") (auto dest: getitem_Inl)

lemma names_setitem:
  "names (setitem df c xs) = (if c \<in> set (names df) then names df else names df @ [c])"
  by (auto simp: setitem_def names_def split: prod.splits intro!: map_idI)

lemma nrows_setitem: "nrows (setitem df c xs) = nrows df"
  by (simp add: setitem_def)

lemma map_of_overwrite:
  "map_of (map (\<lambda>(n, ys). if n = c then (n, xs) else (n, ys)) ps) k =
     (if k = c then (if c \<in> set (map fst ps) then Some xs else None) else map_of ps k)"
  by (induction ps) (auto split: if_splits)

lemma map_of_Some_fst: "map_of ps k = Some v \<Longrightarrow> k \<in> fst ` set ps"
  by (metis map_of_eq_None_iff option.distinct(1))

lemma getitem_setitem_same: "getitem (setitem df c xs) c = Inr xs"
  by (auto simp: getitem_def setitem_def names_def map_of_overwrite map_add_def
        map_of_eq_None_iff split: option.splits dest: map_of_Some_fst)

lemma getitem_setitem_other: "k \<noteq> c \<Longrightarrow> getitem (setitem df c xs) k = getitem df k"
  by (auto simp: getitem_def setitem_def names_def map_of_overwrite map_add_def
        map_of_eq_None_iff split: option.splits dest: map_of_Some_fst)

subsection \<open>Division\<close>

lemma truediv_cell_replace:
  "truediv_cell x (if y = Num 0 then NaN else y) =
     (if text_division x y then Inl TypeError else Inr (rate x y))"
  by (cases x; cases y) (simp_all add: text_division_def is_str_def rate_def)

lemma truediv_replace:
  "truediv xs (replace (Num 0) NaN ys) =
     (if list_ex (\<lambda>(x, y). text_division x y) (zip xs ys) then Inl TypeError
      else Inr (map2 rate xs ys))"
proof (induction xs arbitrary: ys)
  case Nil
  then show ?case by (simp add: truediv_def)
next
  case (Cons x xs)
  show ?case
  proof (cases ys)
    case Nil
    then show ?thesis by (simp add: truediv_def replace_def)
  next
    case (Cons y ys')
    have IH: "collect (map2 truediv_cell xs (map (\<lambda>x. if x = Num 0 then NaN else x) ys')) =
       (if list_ex (\<lambda>(x, y). text_division x y) (zip xs ys') then Inl TypeError
        else Inr (map2 rate xs ys'))"
      using Cons.IH[of ys'] by (simp add: truediv_def replace_def)
    show ?thesis
      unfolding truediv_def replace_def Cons
      by (simp add: truediv_cell_replace IH split: sum.splits)
  qed
qed

lemma truediv_replace_error:
  "truediv xs (replace (Num 0) NaN ys) = Inl e \<Longrightarrow> e = TypeError"
  by (simp add: truediv_replace split: if_splits)

lemma no_text_division:
  "\<not> list_ex is_str xs \<Longrightarrow> \<not> list_ex is_str ys \<Longrightarrow>
   \<not> list_ex (\<lambda>(x, y). text_division x y) (zip xs ys)"
  by (auto simp: list_ex_iff text_division_def dest: set_zip_leftD set_zip_rightD)

lemma avg_monthly_charge_present:
  "getitem df ''total_charges'' = Inr charges \<Longrightarrow> getitem df ''tenure'' = Inr tenure \<Longrightarrow>
   avg_monthly_charge df =
     (if divides_text df then Inl TypeError else Inr (map2 rate charges tenure))"
  by (simp add: avg_monthly_charge_def bind_err_def truediv_replace divides_text_def)

lemma avg_monthly_charge_error:
  "avg_monthly_charge df = Inl e \<Longrightarrow>
   e = TypeError \<or> e = KeyError ''total_charges'' \<or> e = KeyError ''tenure''"
  by (auto simp: avg_monthly_charge_def bind_err_Inl_iff dest: getitem_Inl truediv_replace_error)

lemma avg_monthly_charge_setitem:
  "c \<noteq> ''total_charges'' \<Longrightarrow> c \<noteq> ''tenure'' \<Longrightarrow>
   avg_monthly_charge (setitem df c xs) = avg_monthly_charge df"
  by (simp add: avg_monthly_charge_def getitem_setitem_other)

subsection \<open>get_dummies\<close>

lemma map_of_filter_keep:
  "P k \<Longrightarrow> map_of (filter (\<lambda>(n, _). P n) ps) k = map_of ps k"
  by (induction ps) auto

lemma map_of_filter_drop:
  "\<not> P k \<Longrightarrow> map_of (filter (\<lambda>(n, _). P n) ps) k = None"
  by (induction ps) auto

lemma get_dummies_Inr:
  "get_dummies df cs = Inr d \<Longrightarrow>
   \<exists>data dummies. collect (map (getitem df) cs) = Inr data \<and>
     collect (map2 get_dummies_1d cs data) = Inr dummies \<and>
     d = df\<lparr>cols := filter (\<lambda>(n, _). n \<notin> set cs) (cols df) @ concat dummies\<rparr>"
  by (auto simp: get_dummies_def bind_err_Inr_iff)

lemma nrows_get_dummies: "get_dummies df cs = Inr d \<Longrightarrow> nrows d = nrows df"
  by (auto dest!: get_dummies_Inr)

lemma getitem_get_dummies_kept:
  assumes "get_dummies df cs = Inr d" "k \<notin> set cs" "k \<in> set (names df)"
  shows "getitem d k = getitem df k"
proof -
  obtain xs where xs: "map_of (cols df) k = Some xs"
    using getitem_total[OF assms(3)] by (auto simp: getitem_def split: option.splits)
  from get_dummies_Inr[OF assms(1)] obtain dummies where
    d: "d = df\<lparr>cols := filter (\<lambda>(n, _). n \<notin> set cs) (cols df) @ concat dummies\<rparr>"
    by blast
  have "map_of (filter (\<lambda>(n, _). n \<notin> set cs) (cols df)) k = Some xs"
    using map_of_filter_keep[of "\<lambda>n. n \<notin> set cs" k "cols df"] assms(2) xs by simp
  then show ?thesis
    by (simp add: d getitem_def xs map_add_def)
qed

subsection \<open>preprocess_input, flattened\<close>

lemma training_features_Inr:
  "training_features df = Inr d \<longleftrightarrow>
     (\<exists>isv avg ct. getitem df ''internet_service'' = Inr isv \<and> avg_monthly_charge df = Inr avg \<and>
        getitem df ''contract_type'' = Inr ct \<and>
        get_dummies (engineered df isv avg ct) [''contract_type'', ''internet_service''] = Inr d)"
  by (simp add: training_features_def bind_err_Inr_iff Let_def engineered_def
        avg_monthly_charge_setitem getitem_setitem_other)

lemma preprocess_input_Inr:
  assumes "nc < length h"
  shows "preprocess_input nc ref h = (Inr r, h') \<longleftrightarrow>
     (\<exists>isv avg ct d out. getitem (h ! nc) ''internet_service'' = Inr isv \<and>
        avg_monthly_charge (h ! nc) = Inr avg \<and>
        getitem (h ! nc) ''contract_type'' = Inr ct \<and>
        get_dummies (engineered (h ! nc) isv avg ct) [''contract_type'', ''internet_service''] = Inr d \<and>
        select (align ref d) ref = Inr out \<and>
        r = Suc (length h) \<and>
        h' = h[nc := engineered (h ! nc) isv avg ct] @ [align ref d, out])"
  using assms
  by (auto simp: preprocess_input_def Let_def engineered_def alloc_def
        avg_monthly_charge_setitem getitem_setitem_other nth_append list_update_append
        split: sum.splits)

subsection \<open>align and select\<close>

lemma align_Nil: "align [] d = d"
  by (simp add: align_def)

lemma align_Cons:
  "align (c # cs) d =
     align cs (if c \<notin> set (names d) then setitem d c (replicate (nrows d) (Num 0)) else d)"
  by (simp add: align_def)

lemma nrows_align: "nrows (align cs d) = nrows d"
  by (induction cs arbitrary: d) (simp_all add: align_Nil align_Cons nrows_setitem)

lemma set_names_align: "set (names (align cs d)) = set (names d) \<union> set cs"
  by (induction cs arbitrary: d) (auto simp: align_Nil align_Cons names_setitem)

lemma distinct_names_align: "distinct (names d) \<Longrightarrow> distinct (names (align cs d))"
  by (induction cs arbitrary: d) (auto simp: align_Nil align_Cons names_setitem)

lemma getitem_align:
  "getitem (align cs d) k =
     (if k \<in> set (names d) then getitem d k
      else if k \<in> set cs then Inr (replicate (nrows d) (Num 0))
      else Inl (KeyError k))"
proof (induction cs arbitrary: d)
  case Nil
  then show ?case
    by (cases "getitem d k") (auto simp: align_Nil dest: getitem_Inl getitem_Inr_names)
next
  case (Cons c cs)
  show ?case
  proof (cases "c \<in> set (names d)")
    case True
    then show ?thesis using Cons.IH[of d] by (auto simp: align_Cons)
  next
    case False
    then show ?thesis
      using Cons.IH[of "setitem d c (replicate (nrows d) (Num 0))"]
      by (auto simp: align_Cons names_setitem nrows_setitem getitem_setitem_same
            getitem_setitem_other)
  qed
qed

lemma select_Inr:
  "set cs \<subseteq> set (names df) \<Longrightarrow>
   select df cs = Inr (df\<lparr>cols := concat (map (\<lambda>c. filter (\<lambda>(n, _). n = c) (cols df)) cs)\<rparr>)"
proof -
  assume "set cs \<subseteq> set (names df)"
  then have "filter (\<lambda>c. c \<notin> set (names df)) cs = []"
    by (auto simp: filter_empty_conv)
  then show ?thesis by (simp add: select_def)
qed

lemma select_align: "\<exists>out. select (align cs d) cs = Inr out"
  by (rule exI, rule select_Inr) (simp add: set_names_align)

lemma filter_name_distinct:
  "distinct (map fst ps) \<Longrightarrow> c \<in> set (map fst ps) \<Longrightarrow>
   map fst (filter (\<lambda>(n, _). n = c) ps) = [c]"
  by (induction ps) (auto simp: filter_empty_conv rev_image_eqI)

lemma names_select:
  assumes "select df cs = Inr out" "distinct (names df)"
  shows "names out = cs"
proof -
  have sub: "set cs \<subseteq> set (names df)"
    using assms(1) by (auto simp: select_def filter_empty_conv split: list.splits)
  have "names out = concat (map (\<lambda>c. map fst (filter (\<lambda>(n, _). n = c) (cols df))) cs)"
    using assms(1) select_Inr[OF sub] by (auto simp: names_def map_concat comp_def)
  also have "\<dots> = concat (map (\<lambda>c. [c]) cs)"
    using sub assms(2)
    by (intro arg_cong[where f = concat] map_cong refl filter_name_distinct)
       (auto simp: names_def)
  also have "\<dots> = cs" by (induction cs) auto
  finally show ?thesis .
qed

lemma map_of_concat_select:
  "map_of (concat (map (\<lambda>c. filter (\<lambda>(n, _). n = c) ps) cs)) k =
     (if k \<in> set cs then map_of ps k else None)"
proof (induction cs)
  case Nil
  then show ?case by simp
next
  case (Cons c cs)
  show ?case
  proof (cases "k = c")
    case True
    then show ?thesis
      using Cons map_of_filter_keep[of "\<lambda>n. n = c" k ps]
      by (cases "map_of ps k") (auto simp: map_add_def split: option.splits)
  next
    case False
    then show ?thesis
      using Cons map_of_filter_drop[of "\<lambda>n. n = c" k ps]
      by (auto simp: map_add_def split: option.splits)
  qed
qed

lemma getitem_select:
  assumes "select df cs = Inr out" "k \<in> set cs"
  shows "getitem out k = getitem df k"
proof -
  have sub: "set cs \<subseteq> set (names df)"
    using assms(1) by (auto simp: select_def filter_empty_conv split: list.splits)
  show ?thesis
    using assms select_Inr[OF sub] by (auto simp: getitem_def map_of_concat_select)
qed

lemma nrows_select: "select df cs = Inr out \<Longrightarrow> nrows out = nrows df"
  by (auto simp: select_def split: list.splits)

subsection \<open>what a call computes, and what it leaves in the store\<close>

lemma preprocess_input_value:
  assumes "nc < length h" "preprocess_input nc ref h = (res, h')"
  shows "(case res of Inl e \<Rightarrow> Inl e | Inr r \<Rightarrow> Inr (h' ! r)) = aligned_features ref (h ! nc)"
  using assms
  by (auto simp: preprocess_input_def aligned_features_def training_features_def Let_def
        alloc_def bind_err_def avg_monthly_charge_setitem getitem_setitem_other nth_append
        list_update_append split: sum.splits)

lemma preprocess_input_store:
  assumes "nc < length h" "preprocess_input nc ref h = (res, h')"
  shows "length h \<le> length h' \<and> (\<forall>a<length h. a \<noteq> nc \<longrightarrow> h' ! a = h ! a)"
  using assms
  by (auto simp: preprocess_input_def Let_def alloc_def list_update_append nth_append
        split: sum.splits)

lemma client_features_store:
  assumes "client_features raw ref h = (res, h')"
  shows "length h \<le> length h' \<and> (\<forall>a<length h. h' ! a = h ! a)"
proof -
  have pre: "preprocess_input (length h) ref (h @ [h ! raw]) = (res, h')"
    using assms by (simp add: client_features_def alloc_def)
  from preprocess_input_store[OF _ pre] show ?thesis
    by (auto simp: nth_append)
qed

lemma client_features_value:
  assumes "client_features raw ref h = (res, h')"
  shows "(case res of Inl e \<Rightarrow> Inl e | Inr r \<Rightarrow> Inr (h' ! r)) = aligned_features ref (h ! raw)"
proof -
  have pre: "preprocess_input (length h) ref (h @ [h ! raw]) = (res, h')"
    using assms by (simp add: client_features_def alloc_def)
  from preprocess_input_value[OF _ pre] show ?thesis by simp
qed

lemma feature_row_eq: "feature_row raw ref h = aligned_features ref (h ! raw)"
  using client_features_value[of raw ref h]
  by (cases "client_features raw ref h") (auto simp: feature_row_def split: sum.splits)

lemma churn_probability_value:
  "fst (churn_probability model raw ref h) =
     bind_err (aligned_features ref (h ! raw)) (positive_probability model)"
  using client_features_value[of raw ref h]
  by (cases "client_features raw ref h")
     (auto simp: churn_probability_def positive_probability_def bind_err_def
        split: sum.splits option.splits list.splits)

lemma churn_probability_store:
  "length h \<le> length (snd (churn_probability model raw ref h)) \<and>
   (\<forall>a<length h. snd (churn_probability model raw ref h) ! a = h ! a)"
  using client_features_store[of raw ref h]
  by (cases "client_features raw ref h")
     (auto simp: churn_probability_def split: sum.splits option.splits list.splits)

lemma predict_churn_for_client_value:
  "fst (predict_churn_for_client model raw ref h) =
     bind_err (bind_err (aligned_features ref (h ! raw)) (positive_probability model))
       (\<lambda>prob. Inr (''Customer Churn Probability: '' @ format_percent prob))"
  using churn_probability_value[of model raw ref h]
  by (cases "churn_probability model raw ref h")
     (auto simp: predict_churn_for_client_def bind_err_def split: sum.splits)

lemma predict_churn_for_client_store:
  "snd (predict_churn_for_client model raw ref h) = snd (churn_probability model raw ref h)"
  by (cases "churn_probability model raw ref h")
     (auto simp: predict_churn_for_client_def split: sum.splits)

lemma getitem_training_features_kept:
  assumes "training_features df = Inr d" "k \<in> set (names df)"
    "k \<notin> {''contract_type'', ''internet_service'', ''avg_monthly_charge'', ''is_short_contract''}"
  shows "getitem d k = getitem df k"
proof -
  from assms(1) obtain isv avg ct where
    gd: "get_dummies (engineered df isv avg ct) [''contract_type'', ''internet_service''] = Inr d"
    by (auto simp: training_features_Inr)
  have "k \<in> set (names (engineered df isv avg ct))"
    using assms(2) by (simp add: engineered_def names_setitem)
  with gd have "getitem d k = getitem (engineered df isv avg ct) k"
    using assms(3) by (intro getitem_get_dummies_kept) auto
  also have "\<dots> = getitem df k"
    using assms(3) by (simp add: engineered_def getitem_setitem_other)
  finally show ?thesis .
qed

lemma training_features_derived:
  assumes "training_features df = Inr d"
  shows "\<exists>avg ct. avg_monthly_charge df = Inr avg \<and> getitem df ''contract_type'' = Inr ct \<and>
           getitem d ''avg_monthly_charge'' = Inr avg \<and>
           getitem d ''is_short_contract'' = Inr (map is_short_contract ct)"
proof -
  from assms obtain isv avg ct where
    a: "avg_monthly_charge df = Inr avg" and c: "getitem df ''contract_type'' = Inr ct" and
    gd: "get_dummies (engineered df isv avg ct) [''contract_type'', ''internet_service''] = Inr d"
    by (auto simp: training_features_Inr)
  let ?e = "engineered df isv avg ct"
  have n: "''avg_monthly_charge'' \<in> set (names ?e)" "''is_short_contract'' \<in> set (names ?e)"
    by (simp_all add: engineered_def names_setitem)
  have "getitem d ''avg_monthly_charge'' = getitem ?e ''avg_monthly_charge''"
    using gd n(1) by (intro getitem_get_dummies_kept) auto
  moreover have "getitem ?e ''avg_monthly_charge'' = Inr avg"
    by (simp add: engineered_def getitem_setitem_other getitem_setitem_same)
  moreover have "getitem d ''is_short_contract'' = getitem ?e ''is_short_contract''"
    using gd n(2) by (intro getitem_get_dummies_kept) auto
  moreover have "getitem ?e ''is_short_contract'' = Inr (map is_short_contract ct)"
    by (simp add: engineered_def getitem_setitem_same)
  ultimately show ?thesis using a c by simp
qed

lemma preprocess_input_derived:
  assumes "nc < length h" "preprocess_input nc ref h = (Inr r, h')"
  shows "\<exists>isv avg ct. getitem (h ! nc) ''internet_service'' = Inr isv \<and>
           avg_monthly_charge (h ! nc) = Inr avg \<and>
           getitem (h ! nc) ''contract_type'' = Inr ct \<and>
           h' ! nc = engineered (h ! nc) isv avg ct \<and>
           getitem (h' ! nc) ''internet_service'' = Inr (fillna (Str ''unknown'') isv) \<and>
           getitem (h' ! nc) ''avg_monthly_charge'' = Inr avg \<and>
           getitem (h' ! nc) ''is_short_contract'' = Inr (map is_short_contract ct)"
proof -
  from assms obtain isv avg ct d out where
    i: "getitem (h ! nc) ''internet_service'' = Inr isv" and
    a: "avg_monthly_charge (h ! nc) = Inr avg" and
    c: "getitem (h ! nc) ''contract_type'' = Inr ct" and
    h': "h' = h[nc := engineered (h ! nc) isv avg ct] @ [align ref d, out]"
    by (auto simp: preprocess_input_Inr)
  have e: "h' ! nc = engineered (h ! nc) isv avg ct"
    using assms(1) by (simp add: h' nth_append)
  show ?thesis
    using i a c e
    by (auto simp: engineered_def getitem_setitem_same getitem_setitem_other)
qed

lemma getitem_length:
  "wf_frame df \<Longrightarrow> getitem df c = Inr xs \<Longrightarrow> length xs = nrows df"
  by (auto simp: wf_frame_def getitem_def list_all_iff split: option.splits dest!: map_of_SomeD)

lemma preprocess_input_returned:
  assumes "nc < length h" "preprocess_input nc ref h = (Inr r, h')"
  shows "\<exists>d. training_features (h ! nc) = Inr d \<and> select (align ref d) ref = Inr (h' ! r) \<and>
           nrows (h' ! r) = nrows d \<and>
           (\<forall>k\<in>set ref. getitem (h' ! r) k =
              (if k \<in> set (names d) then getitem d k else Inr (replicate (nrows d) (Num 0))))"
proof -
  from assms obtain isv avg ct d out where
    i: "getitem (h ! nc) ''internet_service'' = Inr isv" and
    a: "avg_monthly_charge (h ! nc) = Inr avg" and
    c: "getitem (h ! nc) ''contract_type'' = Inr ct" and
    g: "get_dummies (engineered (h ! nc) isv avg ct) [''contract_type'', ''internet_service''] = Inr d" and
    s: "select (align ref d) ref = Inr out" and
    r: "r = Suc (length h)" and
    h': "h' = h[nc := engineered (h ! nc) isv avg ct] @ [align ref d, out]"
    by (auto simp: preprocess_input_Inr)
  have t: "training_features (h ! nc) = Inr d"
    using i a c g by (auto simp: training_features_Inr)
  have o: "h' ! r = out"
    by (simp add: h' r nth_append)
  have "getitem out k =
      (if k \<in> set (names d) then getitem d k else Inr (replicate (nrows d) (Num 0)))"
    if "k \<in> set ref" for k
    using getitem_select[OF s that] that by (simp add: getitem_align)
  then show ?thesis
    using t o s nrows_select[OF s] by (auto simp: nrows_align)
qed

lemma categories_single: "length xs \<le> 1 \<Longrightarrow> length (categories xs) \<le> 1"
proof (cases xs)
  case Nil
  then show ?thesis by (simp add: categories_def)
next
  case (Cons x rest)
  assume "length xs \<le> 1"
  with Cons have "xs = [x]" by simp
  then show ?thesis by (simp add: categories_def)
qed

lemma get_dummies_1d_single: "length xs \<le> 1 \<Longrightarrow> get_dummies_1d prefix xs = Inr []"
  using categories_single[of xs]
  by (cases "categories xs") (auto simp: get_dummies_1d_def Let_def)

lemma distinct_names_setitem: "distinct (names df) \<Longrightarrow> distinct (names (setitem df c xs))"
  by (simp add: names_setitem)

lemma distinct_names_engineered:
  "distinct (names df) \<Longrightarrow> distinct (names (engineered df isv avg ct))"
  by (simp add: engineered_def distinct_names_setitem)

lemma collect_two:
  "collect [a, b] = Inr data \<longleftrightarrow> (\<exists>x y. a = Inr x \<and> b = Inr y \<and> data = [x, y])"
  by (cases a; cases b) auto

lemma length_fillna: "length (fillna v xs) = length xs"
  by (simp add: fillna_def)

lemma training_features_record:
  assumes "is_record df" "training_features df = Inr d"
  shows "distinct (names d) \<and> nrows d = 1"
proof -
  from assms(2) obtain isv avg ct where
    i: "getitem df ''internet_service'' = Inr isv" and
    c: "getitem df ''contract_type'' = Inr ct" and
    g: "get_dummies (engineered df isv avg ct) [''contract_type'', ''internet_service''] = Inr d"
    by (auto simp: training_features_Inr)
  let ?e = "engineered df isv avg ct"
  have wf: "wf_frame df" and one: "nrows df = 1"
    using assms(1) by (simp_all add: is_record_def)
  have li: "length isv = 1" and lc: "length ct = 1"
    using getitem_length[OF wf i] getitem_length[OF wf c] one by simp_all
  have ec: "getitem ?e ''contract_type'' = Inr ct"
    using c by (simp add: engineered_def getitem_setitem_other)
  have ei: "getitem ?e ''internet_service'' = Inr (fillna (Str ''unknown'') isv)"
    by (simp add: engineered_def getitem_setitem_other getitem_setitem_same)
  from get_dummies_Inr[OF g] obtain data dummies where
    data: "collect (map (getitem ?e) [''contract_type'', ''internet_service'']) = Inr data" and
    dum: "collect (map2 get_dummies_1d [''contract_type'', ''internet_service''] data) = Inr dummies" and
    d: "d = ?e\<lparr>cols := filter (\<lambda>(n, _). n \<notin> set [''contract_type'', ''internet_service'']) (cols ?e)
              @ concat dummies\<rparr>"
    by blast
  have "data = [ct, fillna (Str ''unknown'') isv]"
    using data ec ei by (simp add: collect_two)
  then have nodummies: "concat dummies = []"
    using dum li lc by (auto simp: get_dummies_1d_single length_fillna)
  have "names d = filter (\<lambda>n. n \<notin> set [''contract_type'', ''internet_service'']) (names ?e)"
    unfolding d nodummies by (simp add: names_def filter_map comp_def case_prod_unfold)
  moreover have "distinct (names ?e)"
    using wf by (simp add: wf_frame_def distinct_names_engineered)
  moreover have "nrows d = 1"
    using nrows_get_dummies[OF g] one by (simp add: engineered_def nrows_setitem)
  ultimately show ?thesis by simp
qed

lemma avg_monthly_charge_numeric:
  assumes "getitem df ''total_charges'' = Inr charges"
    "getitem df ''tenure'' = Inr tenure" "\<not> list_ex is_str charges" "\<not> list_ex is_str tenure"
  shows "avg_monthly_charge df = Inr (map2 rate charges tenure)"
  using assms no_text_division[OF assms(3,4)]
  by (simp add: avg_monthly_charge_def bind_err_def truediv_replace)

lemma training_features_total:
  assumes "is_record df" "set required_columns \<subseteq> set (names df)"
    "numeric_column df ''total_charges''" "numeric_column df ''tenure''"
  shows "\<exists>d. training_features df = Inr d"
proof -
  have wf: "wf_frame df" and one: "nrows df = 1"
    using assms(1) by (simp_all add: is_record_def)
  obtain charges tenure ct isv where
    t: "getitem df ''total_charges'' = Inr charges" and n: "getitem df ''tenure'' = Inr tenure" and
    c: "getitem df ''contract_type'' = Inr ct" and i: "getitem df ''internet_service'' = Inr isv"
    using assms(2) getitem_total[of "''total_charges''" df] getitem_total[of "''tenure''" df]
      getitem_total[of "''contract_type''" df] getitem_total[of "''internet_service''" df]
    by (auto simp: required_columns_def)
  have "\<not> list_ex is_str charges" "\<not> list_ex is_str tenure"
    using assms(3,4) t n by (simp_all add: numeric_column_def)
  then have a: "avg_monthly_charge df = Inr (map2 rate charges tenure)"
    using avg_monthly_charge_numeric[OF t n] by simp
  have li: "length isv = 1" and lc: "length ct = 1"
    using getitem_length[OF wf i] getitem_length[OF wf c] one by simp_all
  let ?e = "engineered df isv (map2 rate charges tenure) ct"
  have ec: "getitem ?e ''contract_type'' = Inr ct"
    using c by (simp add: engineered_def getitem_setitem_other)
  have ei: "getitem ?e ''internet_service'' = Inr (fillna (Str ''unknown'') isv)"
    by (simp add: engineered_def getitem_setitem_other getitem_setitem_same)
  have "\<exists>d. get_dummies ?e [''contract_type'', ''internet_service''] = Inr d"
    using li lc
    by (simp add: get_dummies_def ec ei bind_err_def get_dummies_1d_single length_fillna)
  then show ?thesis
    using i a c by (auto simp: training_features_Inr)
qed

lemma preprocess_input_total:
  assumes "nc < length h" "training_features (h ! nc) = Inr d"
  shows "\<exists>r h'. preprocess_input nc ref h = (Inr r, h')"
proof -
  from assms(2) obtain isv avg ct where
    "getitem (h ! nc) ''internet_service'' = Inr isv" "avg_monthly_charge (h ! nc) = Inr avg"
    "getitem (h ! nc) ''contract_type'' = Inr ct"
    "get_dummies (engineered (h ! nc) isv avg ct) [''contract_type'', ''internet_service''] = Inr d"
    by (auto simp: training_features_Inr)
  moreover obtain out where "select (align ref d) ref = Inr out"
    using select_align by blast
  ultimately show ?thesis
    using preprocess_input_Inr[OF assms(1)] by blast
qed

lemma preprocess_input_returned_derived:
  assumes "nc < length h" "preprocess_input nc ref h = (Inr r, h')"
  shows "\<exists>avg ct. avg_monthly_charge (h ! nc) = Inr avg \<and>
           getitem (h ! nc) ''contract_type'' = Inr ct \<and>
           (''avg_monthly_charge'' \<in> set ref \<longrightarrow>
              getitem (h' ! r) ''avg_monthly_charge'' = Inr avg) \<and>
           (''is_short_contract'' \<in> set ref \<longrightarrow>
              getitem (h' ! r) ''is_short_contract'' = Inr (map is_short_contract ct))"
proof -
  from preprocess_input_returned[OF assms] obtain d where
    t: "training_features (h ! nc) = Inr d" and
    g: "\<forall>k\<in>set ref. getitem (h' ! r) k =
          (if k \<in> set (names d) then getitem d k else Inr (replicate (nrows d) (Num 0)))"
    by blast
  from training_features_derived[OF t] obtain avg ct where
    a: "avg_monthly_charge (h ! nc) = Inr avg" and c: "getitem (h ! nc) ''contract_type'' = Inr ct" and
    da: "getitem d ''avg_monthly_charge'' = Inr avg" and
    ds: "getitem d ''is_short_contract'' = Inr (map is_short_contract ct)"
    by blast
  show ?thesis
    using a c g da ds getitem_Inr_names[OF da] getitem_Inr_names[OF ds] by auto
qed

lemma training_features_missing_fails:
  assumes "c \<in> set required_columns" "c \<notin> set (names df)"
  shows "\<exists>e. training_features df = Inl e"
proof (cases "training_features df")
  case (Inl e)
  then show ?thesis by blast
next
  case (Inr d)
  then obtain isv avg ct where
    i: "getitem df ''internet_service'' = Inr isv" and a: "avg_monthly_charge df = Inr avg" and
    ct: "getitem df ''contract_type'' = Inr ct"
    by (auto simp: training_features_Inr)
  from a obtain charges tenure where
    "getitem df ''total_charges'' = Inr charges" "getitem df ''tenure'' = Inr tenure"
    by (auto simp: avg_monthly_charge_def bind_err_Inr_iff)
  with i ct have "set required_columns \<subseteq> set (names df)"
    by (auto simp: required_columns_def dest: getitem_Inr_names)
  with assms show ?thesis by blast
qed

lemma getitem_absent: "c \<notin> set (names df) \<Longrightarrow> getitem df c = Inl (KeyError c)"
  by (cases "getitem df c") (auto dest: getitem_Inl getitem_Inr_names)

lemma training_features_missing:
  assumes "c \<in> set required_columns" "c \<notin> set (names df)"
  shows "if ''internet_service'' \<in> set (names df) \<and> divides_text df
         then training_features df = Inl TypeError
         else (\<exists>c'. c' \<in> set required_columns \<and> c' \<notin> set (names df) \<and>
                 training_features df = Inl (KeyError c'))"
proof (cases "''internet_service'' \<in> set (names df)")
  case False
  then have "training_features df = Inl (KeyError ''internet_service'')"
    by (simp add: training_features_def bind_err_def getitem_absent)
  with False show ?thesis by (auto simp: required_columns_def)
next
  case isv: True
  then obtain xs where i: "getitem df ''internet_service'' = Inr xs"
    using getitem_total by blast
  have unfold: "training_features df =
      bind_err (avg_monthly_charge df) (\<lambda>avg. bind_err (getitem df ''contract_type'') (\<lambda>ct.
        get_dummies (engineered df xs avg ct) [''contract_type'', ''internet_service'']))"
    by (simp add: training_features_def i bind_err_def Let_def engineered_def
          avg_monthly_charge_setitem getitem_setitem_other split: sum.splits)
  show ?thesis
  proof (cases "''total_charges'' \<in> set (names df)")
    case False
    then have "training_features df = Inl (KeyError ''total_charges'')"
      by (simp add: unfold avg_monthly_charge_def bind_err_def getitem_absent)
    moreover have "\<not> divides_text df"
      using False by (simp add: divides_text_def getitem_absent)
    ultimately show ?thesis using False by (auto simp: required_columns_def)
  next
    case tc: True
    then obtain charges where c: "getitem df ''total_charges'' = Inr charges"
      using getitem_total by blast
    show ?thesis
    proof (cases "''tenure'' \<in> set (names df)")
      case False
      then have "training_features df = Inl (KeyError ''tenure'')"
        by (simp add: unfold avg_monthly_charge_def bind_err_def getitem_absent c)
      moreover have "\<not> divides_text df"
        using False by (simp add: divides_text_def getitem_absent c)
      ultimately show ?thesis using False by (auto simp: required_columns_def)
    next
      case True
      then obtain tenure where t: "getitem df ''tenure'' = Inr tenure"
        using getitem_total by blast
      note a = avg_monthly_charge_present[OF c t]
      have miss: "''contract_type'' \<notin> set (names df)"
        using assms(1,2) isv tc True by (auto simp: required_columns_def)
      show ?thesis
      proof (cases "divides_text df")
        case True
        then have "training_features df = Inl TypeError"
          by (simp add: unfold a bind_err_def)
        with True isv show ?thesis by simp
      next
        case False
        then have "training_features df = Inl (KeyError ''contract_type'')"
          using miss by (simp add: unfold a bind_err_def getitem_absent)
        with miss False show ?thesis by (auto simp: required_columns_def)
      qed
    qed
  qed
qed

lemma numeric_columns_divide_no_text:
  "numeric_column df ''total_charges'' \<Longrightarrow> numeric_column df ''tenure'' \<Longrightarrow> \<not> divides_text df"
  by (auto simp: numeric_column_def divides_text_def split: sum.splits dest: no_text_division)

lemma get_dummies_1d_error:
  "get_dummies_1d prefix xs = Inl e \<Longrightarrow> e = NotModelled ''numeric category''"
  by (auto simp: get_dummies_1d_def Let_def split: if_splits)

lemma avg_monthly_charge_KeyError:
  "avg_monthly_charge df = Inl (KeyError c) \<Longrightarrow>
   c \<in> {''total_charges'', ''tenure''} \<and> c \<notin> set (names df)"
  by (auto simp: avg_monthly_charge_def bind_err_Inl_iff dest: getitem_Inl truediv_replace_error)

lemma training_features_KeyError:
  assumes "training_features df = Inl (KeyError c)"
  shows "c \<in> set required_columns \<and> c \<notin> set (names df)"
proof (cases "getitem df ''internet_service''")
  case (Inl e)
  with assms show ?thesis
    by (auto simp: training_features_def bind_err_def required_columns_def dest: getitem_Inl)
next
  case isv: (Inr isv)
  have unfold: "training_features df =
      bind_err (avg_monthly_charge df) (\<lambda>avg. bind_err (getitem df ''contract_type'') (\<lambda>ct.
        get_dummies (engineered df isv avg ct) [''contract_type'', ''internet_service'']))"
    by (simp add: training_features_def isv bind_err_def Let_def engineered_def
          avg_monthly_charge_setitem getitem_setitem_other split: sum.splits)
  show ?thesis
  proof (cases "avg_monthly_charge df")
    case (Inl e)
    with assms unfold show ?thesis
      by (auto simp: bind_err_def required_columns_def dest: avg_monthly_charge_KeyError)
  next
    case avg: (Inr avg)
    show ?thesis
    proof (cases "getitem df ''contract_type''")
      case (Inl e)
      with assms unfold avg show ?thesis
        by (auto simp: bind_err_def required_columns_def dest: getitem_Inl)
    next
      case ct: (Inr ct)
      let ?e = "engineered df isv avg ct"
      have ec: "getitem ?e ''contract_type'' = Inr ct"
        using ct by (simp add: engineered_def getitem_setitem_other)
      have ei: "getitem ?e ''internet_service'' = Inr (fillna (Str ''unknown'') isv)"
        by (simp add: engineered_def getitem_setitem_other getitem_setitem_same)
      have "get_dummies ?e [''contract_type'', ''internet_service''] = Inl (KeyError c)"
        using assms unfold avg ct by (simp add: bind_err_def)
      then have "collect [get_dummies_1d ''contract_type'' ct,
          get_dummies_1d ''internet_service'' (fillna (Str ''unknown'') isv)] = Inl (KeyError c)"
        by (auto simp: get_dummies_def ec ei bind_err_def split: sum.splits)
      then have False
        by (cases "get_dummies_1d ''contract_type'' ct";
            cases "get_dummies_1d ''internet_service'' (fillna (Str ''unknown'') isv)")
           (auto dest!: get_dummies_1d_error)
      then show ?thesis ..
    qed
  qed
qed

lemma feature_row_KeyError:
  assumes "feature_row raw ref h = Inl (KeyError c)"
  shows "c \<in> set required_columns \<and> c \<notin> set (names (h ! raw))"
proof -
  have "select (align ref d) ref \<noteq> Inl (KeyError c)" for d
    using select_align[of ref d] by auto
  then have "training_features (h ! raw) = Inl (KeyError c)"
    using assms by (auto simp: feature_row_eq aligned_features_def bind_err_Inl_iff)
  then show ?thesis by (rule training_features_KeyError)
qed

subsection \<open>The train/evaluate loop\<close>

lemma evaluate_model_fit_fails:
  "fit m (X_train d) (y_train d) = Inl e \<Longrightarrow>
   evaluate_model lib d name m s = (Some e, emit [Header name] s)"
  by (simp add: evaluate_model_def)

lemma train_and_evaluate_append:
  "train_and_evaluate lib d before s = (None, s1) \<Longrightarrow>
   train_and_evaluate lib d (before @ rest) s = train_and_evaluate lib d rest s1"
proof (induction before arbitrary: s)
  case Nil
  then show ?case by simp
next
  case (Cons p before)
  obtain name m where p: "p = (name, m)" by (cases p)
  show ?case
  proof (cases "evaluate_model lib d name m s")
    case (Pair err s')
    with Cons.prems p have "err = None" and "train_and_evaluate lib d before s' = (None, s1)"
      by (auto split: option.splits)
    with Cons.IH[of s'] Pair p show ?thesis by simp
  qed
qed

section \<open>The concrete inputs, evaluated\<close>

lemma eval_training_features_batch:
  "training_features example_batch = Inr \<lparr>nrows = 3, cols =
     [(''customer_id'', [Num 1, Num 2, Num 3]),
      (''tenure'', [Num 5, Num 12, Num 0]),
      (''total_charges'', [Num 250, Num 600, Num 80]),
      (''churn'', [Str ''Yes'', Str ''No'', Str ''No'']),
      (''avg_monthly_charge'', [Num 50, Num 50, NaN]),
      (''is_short_contract'', [Num 1, Num 0, Num 0]),
      (''contract_type_one-year'', [Num 0, Num 1, Num 0]),
      (''contract_type_two-year'', [Num 0, Num 0, Num 1]),
      (''internet_service_fiber optic'', [Num 1, Num 0, Num 0]),
      (''internet_service_unknown'', [Num 0, Num 0, Num 1])]\<rparr>"
  by code_simp

lemma eval_training_features_mislabelled:
  "\<exists>d. training_features mislabelled_batch = Inr d"
proof -
  have "training_features mislabelled_batch = Inr \<lparr>nrows = 3, cols =
     [(''customer_id'', [Num 1, Num 2, Num 3]),
      (''tenure'', [Num 5, Num 12, Num 0]),
      (''total_charges'', [Num 250, Num 600, Num 80]),
      (''churn'', [Str ''Yes'', Str ''no'', Num 1]),
      (''avg_monthly_charge'', [Num 50, Num 50, NaN]),
      (''is_short_contract'', [Num 1, Num 0, Num 0]),
      (''contract_type_one-year'', [Num 0, Num 1, Num 0]),
      (''contract_type_two-year'', [Num 0, Num 0, Num 1]),
      (''internet_service_fiber optic'', [Num 1, Num 0, Num 0]),
      (''internet_service_unknown'', [Num 0, Num 0, Num 1])]\<rparr>"
    by code_simp
  then show ?thesis by blast
qed

lemma eval_training_features_client:
  "training_features example_client = Inr \<lparr>nrows = 1, cols =
     [(''tenure'', [Num 5]), (''total_charges'', [Num 250]),
      (''avg_monthly_charge'', [Num 50]), (''is_short_contract'', [Num 1])]\<rparr>"
  by code_simp

lemma eval_aligned_features_client:
  "aligned_features example_reference example_client = Inr \<lparr>nrows = 1, cols =
     [(''tenure'', [Num 5]), (''total_charges'', [Num 250]),
      (''avg_monthly_charge'', [Num 50]), (''is_short_contract'', [Num 1]),
      (''contract_type_one-year'', [Num 0]), (''contract_type_two-year'', [Num 0]),
      (''internet_service_fiber optic'', [Num 0]), (''internet_service_unknown'', [Num 0])]\<rparr>"
  apply (simp only: aligned_features_def eval_training_features_client bind_err_def sum.case)
  apply code_simp
  done

lemma eval_preprocess_input_client:
  "preprocess_input 0 example_reference [example_client] =
     (Inr 2, [example_client_after, example_row, example_row])"
proof -
  have i: "getitem example_client ''internet_service'' = Inr [Str ''fiber optic'']"
    by code_simp
  have a: "avg_monthly_charge example_client = Inr [Num 50]"
    by code_simp
  have c: "getitem example_client ''contract_type'' = Inr [Str ''month-to-month'']"
    by code_simp
  have e: "engineered example_client [Str ''fiber optic''] [Num 50] [Str ''month-to-month'']
      = example_client_after"
    by code_simp
  have g: "get_dummies example_client_after [''contract_type'', ''internet_service''] =
      Inr \<lparr>nrows = 1, cols =
        [(''tenure'', [Num 5]), (''total_charges'', [Num 250]),
         (''avg_monthly_charge'', [Num 50]), (''is_short_contract'', [Num 1])]\<rparr>"
    by code_simp
  have al: "align example_reference \<lparr>nrows = 1, cols =
        [(''tenure'', [Num 5]), (''total_charges'', [Num 250]),
         (''avg_monthly_charge'', [Num 50]), (''is_short_contract'', [Num 1])]\<rparr> = example_row"
    by code_simp
  have se: "select example_row example_reference = Inr example_row"
    by code_simp
  have "0 < length [example_client]" by simp
  from preprocess_input_Inr[OF this, of example_reference 2
      "[example_client_after, example_row, example_row]"]
  show ?thesis
    using i a c e g al se by simp
qed

lemma eval_preprocess_input_batch:
  "\<exists>r h'. preprocess_input 0 example_reference [example_batch] = (Inr r, h')"
  using preprocess_input_total[of 0 "[example_batch]" _ example_reference]
    eval_training_features_batch by simp

lemma eval_avg_monthly_charge_batch:
  "avg_monthly_charge example_batch = Inr [Num 50, Num 50, NaN]"
  by code_simp

lemma eval_preprocess_input_missing_internet:
  "preprocess_input 0 example_reference [client_missing_internet] =
     (Inr 2, [client_missing_internet_after, example_row, example_row])"
proof -
  have i: "getitem client_missing_internet ''internet_service'' = Inr [NaN]"
    by code_simp
  have a: "avg_monthly_charge client_missing_internet = Inr [Num 50]"
    by code_simp
  have c: "getitem client_missing_internet ''contract_type'' = Inr [Str ''month-to-month'']"
    by code_simp
  have e: "engineered client_missing_internet [NaN] [Num 50] [Str ''month-to-month'']
      = client_missing_internet_after"
    by code_simp
  have g: "get_dummies client_missing_internet_after [''contract_type'', ''internet_service''] =
      Inr \<lparr>nrows = 1, cols =
        [(''tenure'', [Num 5]), (''total_charges'', [Num 250]),
         (''avg_monthly_charge'', [Num 50]), (''is_short_contract'', [Num 1])]\<rparr>"
    by code_simp
  have al: "align example_reference \<lparr>nrows = 1, cols =
        [(''tenure'', [Num 5]), (''total_charges'', [Num 250]),
         (''avg_monthly_charge'', [Num 50]), (''is_short_contract'', [Num 1])]\<rparr> = example_row"
    by code_simp
  have se: "select example_row example_reference = Inr example_row"
    by code_simp
  have "0 < length [client_missing_internet]" by simp
  from preprocess_input_Inr[OF this, of example_reference 2
      "[client_missing_internet_after, example_row, example_row]"]
  show ?thesis
    using i a c e g al se by simp
qed

lemma eval_training_features_text_charges:
  "training_features client_text_charges = Inl TypeError"
  by code_simp

lemma is_record_example_client: "is_record example_client"
  by code_simp

lemma wf_example_batch: "wf_frame example_batch"
  by code_simp

lemma eval_aligned_features_client_row:
  "aligned_features example_reference example_client = Inr example_row"
  unfolding example_row_def by (rule eval_aligned_features_client)

lemma eval_positive_probability_row:
  "positive_probability toy_model example_row = Inr (367 / 500)"
  by (simp add: positive_probability_def toy_model_def bind_err_def example_row_def)

lemma eval_round_double:
  "round_double (367 / 500) = 413205265811243 / 562949953421312"
  "round_double (413205265811243 / 562949953421312 * 100) = 2582532911320269 / 35184372088832"
  by code_simp+

lemma eval_round_half_even:
  "round_half_even (2582532911320269 / 35184372088832 * 100) = 7340"
  by code_simp

lemma eval_digits: "digits 73 = ''73''" "digits 4 = ''4''" "digits 0 = ''0''"
  by code_simp+

lemma eval_format_percent: "format_percent (367 / 500) = ''73.40%''"
  apply (simp only: format_percent_def Let_def eval_round_double eval_round_half_even)
  apply (simp add: eval_digits)
  done

lemma eval_predict_churn_for_client:
  "fst (predict_churn_for_client toy_model 0 example_reference [example_client])
     = Inr ''Customer Churn Probability: 73.40%''"
proof -
  have "fst (predict_churn_for_client toy_model 0 example_reference [example_client])
      = Inr (''Customer Churn Probability: '' @ format_percent (367 / 500))"
    by (simp only: predict_churn_for_client_value nth_Cons_0 eval_aligned_features_client_row
          bind_err_def sum.case eval_positive_probability_row)
  also have "\<dots> = Inr ''Customer Churn Probability: 73.40%''"
    by (simp only: eval_format_percent append.simps)
  finally show ?thesis .
qed

lemma eval_random_forest:
  "evaluate_model toy_sklearn toy_dataset ''Random Forest'' fits_fine start =
     (None, \<lparr>printed =
        [Header ''Random Forest'', Label ''Confusion Matrix:'', Matrix [[1, 0], [0, 1]],
         Label ''Classification Report:'', Report ''report'', RocAuc 1,
         CvScores [1, 1, 1, 1, 1], AverageF1 (Num 1)],
       fitted = [(''Random Forest'', toy_model)]\<rparr>)"
  by (simp add: evaluate_model_def roc_auc_def emit_def mean_def start_def toy_sklearn_def
        toy_dataset_def fits_fine_def toy_model_def)

lemma eval_training_preprocess_batch:
  "training_preprocess example_batch = Inr \<lparr>nrows = 3, cols =
     [(''customer_id'', [Num 1, Num 2, Num 3]),
      (''tenure'', [Num 5, Num 12, Num 0]),
      (''total_charges'', [Num 250, Num 600, Num 80]),
      (''churn'', [Num 1, Num 0, Num 0]),
      (''avg_monthly_charge'', [Num 50, Num 50, NaN]),
      (''is_short_contract'', [Num 1, Num 0, Num 0]),
      (''contract_type_one-year'', [Num 0, Num 1, Num 0]),
      (''contract_type_two-year'', [Num 0, Num 0, Num 1]),
      (''internet_service_fiber optic'', [Num 1, Num 0, Num 0]),
      (''internet_service_unknown'', [Num 0, Num 0, Num 1])]\<rparr>"
  apply (simp only: training_preprocess_def eval_training_features_batch bind_err_def sum.case)
  apply code_simp
  done

lemma eval_feature_matrix_batch:
  "bind_err (training_preprocess example_batch) feature_matrix = Inr example_X"
  apply (simp only: eval_training_preprocess_batch bind_err_def sum.case)
  apply code_simp
  done

lemma eval_reference_columns:
  "reference_columns_of example_batch = Inr example_reference"
proof -
  have "names example_X = example_reference"
    by code_simp
  then show ?thesis
    using eval_feature_matrix_batch
    by (cases "training_preprocess example_batch")
       (simp_all add: reference_columns_of_def bind_err_def)
qed

lemma eval_training_features_first_row:
  "training_features (row_of example_batch 0) = Inr \<lparr>nrows = 1, cols =
     [(''customer_id'', [Num 1]), (''tenure'', [Num 5]), (''total_charges'', [Num 250]),
      (''churn'', [Str ''Yes'']),
      (''avg_monthly_charge'', [Num 50]), (''is_short_contract'', [Num 1])]\<rparr>"
  by code_simp

lemma eval_aligned_features_first_row:
  "aligned_features example_reference (row_of example_batch 0) = Inr example_row"
  apply (simp only: aligned_features_def eval_training_features_first_row bind_err_def sum.case)
  apply code_simp
  done

section \<open>The claims\<close>

text \<open>
  Claim C1, evaluated. The reference columns are those the three-customer training table
  yields. For the client of lines 193-198 the returned row has \<^verbatim>\<open>is_short_contract\<close>
  1 and \<^verbatim>\<open>avg_monthly_charge\<close> 50, and the reported probability is the
  classifier's; but every indicator column is 0, the one of \<^verbatim>\<open>fiber optic\<close>
  included: the single row has one category per column, \<^verbatim>\<open>drop_first\<close> drops it,
  and the alignment loop fills the missing column with 0.
\<close>

theorem example_client_fiber_optic_indicator_is_zero:
  "reference_columns_of example_batch = Inr example_reference \<and>
   feature_row 0 example_reference [example_client] = Inr example_row \<and>
   getitem example_row ''is_short_contract'' = Inr [Num 1] \<and>
   getitem example_row ''avg_monthly_charge'' = Inr [Num 50] \<and>
   getitem example_row ''internet_service_fiber optic'' = Inr [Num 0] \<and>
   getitem example_row ''internet_service_unknown'' = Inr [Num 0] \<and>
   getitem example_row ''contract_type_one-year'' = Inr [Num 0] \<and>
   getitem example_row ''contract_type_two-year'' = Inr [Num 0] \<and>
   fst (churn_probability toy_model 0 example_reference [example_client]) = Inr (367 / 500) \<and>
   fst (predict_churn_for_client toy_model 0 example_reference [example_client])
     = Inr ''Customer Churn Probability: 73.40%''"
proof -
  have row: "feature_row 0 example_reference [example_client] = Inr example_row"
    by (simp only: feature_row_eq nth_Cons_0 eval_aligned_features_client_row)
  have cells: "getitem example_row ''is_short_contract'' = Inr [Num 1]"
    "getitem example_row ''avg_monthly_charge'' = Inr [Num 50]"
    "getitem example_row ''internet_service_fiber optic'' = Inr [Num 0]"
    "getitem example_row ''internet_service_unknown'' = Inr [Num 0]"
    "getitem example_row ''contract_type_one-year'' = Inr [Num 0]"
    "getitem example_row ''contract_type_two-year'' = Inr [Num 0]"
    by (simp_all add: getitem_def example_row_def)
  have prob: "fst (churn_probability toy_model 0 example_reference [example_client])
      = Inr (367 / 500)"
    by (simp only: churn_probability_value nth_Cons_0 eval_aligned_features_client_row
          bind_err_def sum.case eval_positive_probability_row)
  show ?thesis
    using eval_reference_columns row cells prob eval_predict_churn_for_client
    by (simp only: simp_thms)
qed

text \<open>
  Claim C2, evaluated. In the training table the first customer has the
  \<^verbatim>\<open>fiber optic\<close> indicator 1; the same customer's raw row, passed alone through
  the inference path and aligned to the same reference columns, has it 0. The two paths
  do not give the same feature values.
\<close>

theorem training_and_inference_encode_differently:
  "bind_err (training_preprocess example_batch) feature_matrix = Inr example_X \<and>
   names example_X = example_reference \<and>
   getitem (row_of example_X 0) ''internet_service_fiber optic'' = Inr [Num 1] \<and>
   feature_row 0 example_reference [row_of example_batch 0] = Inr example_row \<and>
   getitem example_row ''internet_service_fiber optic'' = Inr [Num 0] \<and>
   row_of example_X 0 \<noteq> example_row"
proof -
  have n: "names example_X = example_reference"
    by code_simp
  have t: "getitem (row_of example_X 0) ''internet_service_fiber optic'' = Inr [Num 1]"
    by (simp add: getitem_def row_of_def example_X_def)
  have r: "feature_row 0 example_reference [row_of example_batch 0] = Inr example_row"
    by (simp only: feature_row_eq nth_Cons_0 eval_aligned_features_first_row)
  have i: "getitem example_row ''internet_service_fiber optic'' = Inr [Num 0]"
    by (simp add: getitem_def example_row_def)
  have "row_of example_X 0 \<noteq> example_row"
    using t i by auto
  then show ?thesis
    using eval_feature_matrix_batch n t r i by (simp only: simp_thms)
qed

text \<open>
  Claim C3, as amended. When the raw record lacks one of the four required columns,
  \<^verbatim>\<open>predict_churn_for_client\<close> returns no probability: it ends in an exception
  raised while the features are prepared. The exception is the KeyError that names a
  required column the record lacks, unless \<^verbatim>\<open>internet_service\<close> is present and
  line 166 divides a string (a row with \<^verbatim>\<open>total_charges\<close> and \<^verbatim>\<open>tenure\<close> both
  present, tenure not 0, one of them a string): then it is a TypeError, raised before
  \<^verbatim>\<open>contract_type\<close> is read. In particular it is the KeyError whenever
  \<^verbatim>\<open>total_charges\<close> and \<^verbatim>\<open>tenure\<close>, where present, hold no strings. Preparing the
  features raises a KeyError for nothing but a required column the record lacks.
\<close>

theorem missing_required_column_never_predicts:
  assumes "raw < length h" "c \<in> set required_columns" "c \<notin> set (names (h ! raw))"
  shows "(\<exists>e. fst (predict_churn_for_client model raw ref h) = Inl e) \<and>
         (''internet_service'' \<in> set (names (h ! raw)) \<and> divides_text (h ! raw) \<longrightarrow>
            feature_row raw ref h = Inl TypeError \<and>
            fst (predict_churn_for_client model raw ref h) = Inl TypeError) \<and>
         (\<not> (''internet_service'' \<in> set (names (h ! raw)) \<and> divides_text (h ! raw)) \<longrightarrow>
            (\<exists>c'. c' \<in> set required_columns \<and> c' \<notin> set (names (h ! raw)) \<and>
               feature_row raw ref h = Inl (KeyError c') \<and>
               fst (predict_churn_for_client model raw ref h) = Inl (KeyError c'))) \<and>
         (numeric_column (h ! raw) ''total_charges'' \<and> numeric_column (h ! raw) ''tenure'' \<longrightarrow>
            (\<exists>c'. c' \<in> set required_columns \<and> c' \<notin> set (names (h ! raw)) \<and>
               feature_row raw ref h = Inl (KeyError c') \<and>
               fst (predict_churn_for_client model raw ref h) = Inl (KeyError c'))) \<and>
         (\<forall>c'. feature_row raw ref h = Inl (KeyError c') \<longrightarrow>
            c' \<in> set required_columns \<and> c' \<notin> set (names (h ! raw)))"
proof -
  let ?df = "h ! raw"
  let ?str = "''internet_service'' \<in> set (names ?df) \<and> divides_text ?df"
  note m = training_features_missing[OF assms(2,3)]
  have err: "feature_row raw ref h = Inl e \<and>
      fst (predict_churn_for_client model raw ref h) = Inl e"
    if "training_features ?df = Inl e" for e
    using that
    by (simp add: predict_churn_for_client_value feature_row_eq aligned_features_def bind_err_def)
  have str: "feature_row raw ref h = Inl TypeError \<and>
      fst (predict_churn_for_client model raw ref h) = Inl TypeError" if "?str"
  proof -
    have "training_features ?df = Inl TypeError" using m that by simp
    then show ?thesis by (rule err)
  qed
  have key: "\<exists>c'. c' \<in> set required_columns \<and> c' \<notin> set (names ?df) \<and>
      feature_row raw ref h = Inl (KeyError c') \<and>
      fst (predict_churn_for_client model raw ref h) = Inl (KeyError c')" if "\<not> ?str"
  proof -
    from m that obtain c' where c': "c' \<in> set required_columns" "c' \<notin> set (names ?df)"
      "training_features ?df = Inl (KeyError c')"
      by auto
    with err[OF c'(3)] show ?thesis by blast
  qed
  have some: "\<exists>e. fst (predict_churn_for_client model raw ref h) = Inl e"
    using str key by (cases "?str") blast+
  have num: "\<exists>c'. c' \<in> set required_columns \<and> c' \<notin> set (names ?df) \<and>
      feature_row raw ref h = Inl (KeyError c') \<and>
      fst (predict_churn_for_client model raw ref h) = Inl (KeyError c')"
    if "numeric_column ?df ''total_charges'' \<and> numeric_column ?df ''tenure''"
    using key numeric_columns_divide_no_text[of ?df] that by blast
  have only: "c' \<in> set required_columns \<and> c' \<notin> set (names ?df)"
    if "feature_row raw ref h = Inl (KeyError c')" for c'
    using feature_row_KeyError[OF that] .
  show ?thesis
    using some str key num only by blast
qed

theorem missing_required_column_never_predicts_witness:
  "0 < length [client_without_contract] \<and>
   ''contract_type'' \<in> set required_columns \<and>
   ''contract_type'' \<notin> set (names ([client_without_contract] ! 0)) \<and>
   numeric_column client_without_contract ''total_charges'' \<and>
   numeric_column client_without_contract ''tenure'' \<and>
   fst (predict_churn_for_client toy_model 0 example_reference [client_without_contract])
     = Inl (KeyError ''contract_type'') \<and>
   ''contract_type'' \<notin> set (names ([new_client_text_charges] ! 0)) \<and>
   \<not> divides_text new_client_text_charges \<and>
   fst (predict_churn_for_client toy_model 0 example_reference [new_client_text_charges])
     = Inl (KeyError ''contract_type'')"
proof -
  have len: "0 < length [client_without_contract]" "0 < length [new_client_text_charges]"
    by simp_all
  have req: "''contract_type'' \<in> set required_columns"
    by (simp add: required_columns_def)
  have nm: "names client_without_contract = [''tenure'', ''total_charges'', ''internet_service'']"
    "names new_client_text_charges = [''tenure'', ''total_charges'', ''internet_service'']"
    by (simp_all add: client_without_contract_def new_client_text_charges_def names_def)
  have miss: "''contract_type'' \<notin> set (names ([client_without_contract] ! 0))"
    "''contract_type'' \<notin> set (names ([new_client_text_charges] ! 0))"
    by (simp_all add: nm)
  have num: "numeric_column client_without_contract ''total_charges''"
    "numeric_column client_without_contract ''tenure''"
    by (simp_all add: numeric_column_def getitem_def client_without_contract_def is_str_def)
  have nt: "\<not> divides_text new_client_text_charges"
    by (simp add: divides_text_def getitem_def new_client_text_charges_def text_division_def)
  from missing_required_column_never_predicts[OF len(1) req miss(1),
      of toy_model example_reference]
  have "\<exists>c'. c' \<in> set required_columns \<and> c' \<notin> set (names client_without_contract) \<and>
      fst (predict_churn_for_client toy_model 0 example_reference [client_without_contract])
        = Inl (KeyError c')"
    using num by auto
  then have one: "fst (predict_churn_for_client toy_model 0 example_reference
      [client_without_contract]) = Inl (KeyError ''contract_type'')"
    by (auto simp: nm required_columns_def)
  from missing_required_column_never_predicts[OF len(2) req miss(2),
      of toy_model example_reference]
  have "\<exists>c'. c' \<in> set required_columns \<and> c' \<notin> set (names new_client_text_charges) \<and>
      fst (predict_churn_for_client toy_model 0 example_reference [new_client_text_charges])
        = Inl (KeyError c')"
    using nt by auto
  then have two: "fst (predict_churn_for_client toy_model 0 example_reference
      [new_client_text_charges]) = Inl (KeyError ''contract_type'')"
    by (auto simp: nm required_columns_def)
  show ?thesis
    using len req miss num nt one two by simp
qed

text \<open>
  Claim C3 as stated fails: the record with tenure 5, \<^verbatim>\<open>total_charges\<close> the text
  \<^verbatim>\<open>250\<close>, an \<^verbatim>\<open>internet_service\<close> and no \<^verbatim>\<open>contract_type\<close> ends in the
  TypeError of line 166, not in an error about the missing column.
\<close>

theorem missing_contract_type_text_charges_counterexample:
  "''contract_type'' \<in> set required_columns \<and>
   ''contract_type'' \<notin> set (names client_text_charges) \<and>
   fst (predict_churn_for_client toy_model 0 example_reference [client_text_charges])
     = Inl TypeError \<and>
   (\<forall>c. fst (predict_churn_for_client toy_model 0 example_reference [client_text_charges])
     \<noteq> Inl (KeyError c))"
proof -
  have req: "''contract_type'' \<in> set required_columns"
    by (simp add: required_columns_def)
  have miss: "''contract_type'' \<notin> set (names client_text_charges)"
    by (simp add: client_text_charges_def names_def)
  have "fst (predict_churn_for_client toy_model 0 example_reference [client_text_charges])
      = Inl TypeError"
    by (simp only: predict_churn_for_client_value nth_Cons_0 aligned_features_def
          eval_training_features_text_charges bind_err_def sum.case)
  then show ?thesis
    using req miss by simp
qed

text \<open>
  Claim C4, as amended. The loop has no exception handler: when the variants before one
  have been evaluated without an exception and fitting that one fails, the run ends with
  that exception; the output holds the reports of the earlier variants and the header of
  the failing one, and no later variant is fitted or evaluated.
\<close>

theorem fit_failure_stops_the_loop:
  assumes "train_and_evaluate lib d before s = (None, s1)"
    "fit m (X_train d) (y_train d) = Inl e"
  shows "train_and_evaluate lib d (before @ (name, m) # later) s
           = (Some e, s1\<lparr>printed := printed s1 @ [Header name]\<rparr>)"
proof -
  have "train_and_evaluate lib d (before @ (name, m) # later) s
      = train_and_evaluate lib d ((name, m) # later) s1"
    using assms(1) by (rule train_and_evaluate_append)
  also have "\<dots> = (Some e, emit [Header name] s1)"
    using assms(2) by (simp add: evaluate_model_fit_fails)
  finally show ?thesis by (simp add: emit_def)
qed

theorem fit_failure_stops_the_loop_witness:
  "train_and_evaluate toy_sklearn toy_dataset
     ([(''Random Forest'', fits_fine)] @ (''Logistic Regression'', fails_to_fit)
        # [(''Gradient Boosting'', fits_fine)]) start =
     (Some (LibraryError ''fit did not converge''),
      \<lparr>printed =
         [Header ''Random Forest'', Label ''Confusion Matrix:'', Matrix [[1, 0], [0, 1]],
          Label ''Classification Report:'', Report ''report'', RocAuc 1,
          CvScores [1, 1, 1, 1, 1], AverageF1 (Num 1), Header ''Logistic Regression''],
       fitted = [(''Random Forest'', toy_model)]\<rparr>)"
proof -
  have before: "train_and_evaluate toy_sklearn toy_dataset [(''Random Forest'', fits_fine)] start =
     (None, \<lparr>printed =
        [Header ''Random Forest'', Label ''Confusion Matrix:'', Matrix [[1, 0], [0, 1]],
         Label ''Classification Report:'', Report ''report'', RocAuc 1,
         CvScores [1, 1, 1, 1, 1], AverageF1 (Num 1)],
       fitted = [(''Random Forest'', toy_model)]\<rparr>)"
    by (simp add: eval_random_forest)
  have fails: "fit fails_to_fit (X_train toy_dataset) (y_train toy_dataset)
      = Inl (LibraryError ''fit did not converge'')"
    by (simp add: fails_to_fit_def)
  from fit_failure_stops_the_loop[OF before fails, of "''Logistic Regression''"
      "[(''Gradient Boosting'', fits_fine)]"]
  show ?thesis by simp
qed

text \<open>
  Claim C4 as stated fails: with a Logistic Regression whose fit raises and a Gradient
  Boosting whose fit would succeed, the run ends with the exception, only Random Forest
  has been fitted, and nothing is printed for Gradient Boosting.
\<close>

theorem fit_failure_not_isolated_counterexample:
  "fit fails_to_fit (X_train toy_dataset) (y_train toy_dataset)
     = Inl (LibraryError ''fit did not converge'') \<and>
   fit fits_fine (X_train toy_dataset) (y_train toy_dataset) = Inr toy_model \<and>
   fst (train_and_evaluate toy_sklearn toy_dataset example_models start)
     = Some (LibraryError ''fit did not converge'') \<and>
   map fst (fitted (snd (train_and_evaluate toy_sklearn toy_dataset example_models start)))
     = [''Random Forest''] \<and>
   Header ''Gradient Boosting''
     \<notin> set (printed (snd (train_and_evaluate toy_sklearn toy_dataset example_models start)))"
proof -
  have fails: "fit fails_to_fit (X_train toy_dataset) (y_train toy_dataset)
      = Inl (LibraryError ''fit did not converge'')"
    by (simp add: fails_to_fit_def)
  have "train_and_evaluate toy_sklearn toy_dataset example_models start =
     (Some (LibraryError ''fit did not converge''),
      \<lparr>printed =
         [Header ''Random Forest'', Label ''Confusion Matrix:'', Matrix [[1, 0], [0, 1]],
          Label ''Classification Report:'', Report ''report'', RocAuc 1,
          CvScores [1, 1, 1, 1, 1], AverageF1 (Num 1), Header ''Logistic Regression''],
       fitted = [(''Random Forest'', toy_model)]\<rparr>)"
    by (simp add: example_models_def eval_random_forest evaluate_model_fit_fails fails emit_def)
  then show ?thesis
    using fails by (simp add: fits_fine_def)
qed

text \<open>
  Claim C5. On a well-formed table whose \<^verbatim>\<open>total_charges\<close> and \<^verbatim>\<open>tenure\<close>
  columns hold no strings, computing \<^verbatim>\<open>avg_monthly_charge\<close> raises nothing; a row
  with tenure 0 gets the missing value (not 0), and a row with tenure above 0 gets
  total_charges / tenure. The training path stores this column, and so does
  \<^verbatim>\<open>preprocess_input\<close>, in the table it was given and in the table it returns.
\<close>

theorem avg_monthly_charge_missing_at_zero_tenure:
  assumes "wf_frame df" "getitem df ''total_charges'' = Inr charges"
    "getitem df ''tenure'' = Inr tenure" "\<not> list_ex is_str charges" "\<not> list_ex is_str tenure"
  shows "\<exists>avg. avg_monthly_charge df = Inr avg \<and> length avg = nrows df \<and>
           (\<forall>i<nrows df.
              (tenure ! i = Num 0 \<longrightarrow> avg ! i = NaN) \<and>
              (\<forall>c t. charges ! i = Num c \<and> tenure ! i = Num t \<and> 0 < t \<longrightarrow>
                 avg ! i = Num (c / t))) \<and>
           (\<forall>d. training_features df = Inr d \<longrightarrow> getitem d ''avg_monthly_charge'' = Inr avg) \<and>
           (\<forall>h nc ref r h'. nc < length h \<and> h ! nc = df \<and>
                preprocess_input nc ref h = (Inr r, h') \<longrightarrow>
              getitem (h' ! nc) ''avg_monthly_charge'' = Inr avg \<and>
              (''avg_monthly_charge'' \<in> set ref \<longrightarrow>
                 getitem (h' ! r) ''avg_monthly_charge'' = Inr avg))"
proof -
  let ?avg = "map2 rate charges tenure"
  have lc: "length charges = nrows df" and lt: "length tenure = nrows df"
    using getitem_length[OF assms(1,2)] getitem_length[OF assms(1,3)] by simp_all
  have a: "avg_monthly_charge df = Inr ?avg"
    by (rule avg_monthly_charge_numeric[OF assms(2-5)])
  have len: "length ?avg = nrows df"
    using lc lt by simp
  have rows: "(tenure ! i = Num 0 \<longrightarrow> ?avg ! i = NaN) \<and>
      (\<forall>c t. charges ! i = Num c \<and> tenure ! i = Num t \<and> 0 < t \<longrightarrow> ?avg ! i = Num (c / t))"
    if "i < nrows df" for i
    using that lc lt by (auto simp: rate_def split: cell.splits)
  have train: "getitem d ''avg_monthly_charge'' = Inr ?avg" if "training_features df = Inr d" for d
    using training_features_derived[OF that] a by auto
  have infer: "getitem (h' ! nc) ''avg_monthly_charge'' = Inr ?avg \<and>
      (''avg_monthly_charge'' \<in> set ref \<longrightarrow> getitem (h' ! r) ''avg_monthly_charge'' = Inr ?avg)"
    if "nc < length h \<and> h ! nc = df \<and> preprocess_input nc ref h = (Inr r, h')"
    for h nc ref r h'
    using preprocess_input_derived[of nc h ref r h']
      preprocess_input_returned_derived[of nc h ref r h'] that a by auto
  show ?thesis
    using a len rows train infer by blast
qed

theorem avg_monthly_charge_missing_at_zero_tenure_witness:
  "wf_frame example_batch \<and>
   getitem example_batch ''total_charges'' = Inr [Num 250, Num 600, Num 80] \<and>
   getitem example_batch ''tenure'' = Inr [Num 5, Num 12, Num 0] \<and>
   avg_monthly_charge example_batch = Inr [Num 50, Num 50, NaN] \<and>
   (\<exists>d. training_features example_batch = Inr d \<and>
      getitem d ''avg_monthly_charge'' = Inr [Num 50, Num 50, NaN]) \<and>
   (\<exists>r h'. preprocess_input 0 example_reference [example_batch] = (Inr r, h') \<and>
      getitem (h' ! 0) ''avg_monthly_charge'' = Inr [Num 50, Num 50, NaN] \<and>
      getitem (h' ! r) ''avg_monthly_charge'' = Inr [Num 50, Num 50, NaN])"
proof -
  have c: "getitem example_batch ''total_charges'' = Inr [Num 250, Num 600, Num 80]"
    by code_simp
  have t: "getitem example_batch ''tenure'' = Inr [Num 5, Num 12, Num 0]"
    by code_simp
  have nc: "\<not> list_ex is_str [Num 250, Num 600, Num 80]"
    by (simp add: is_str_def)
  have nt: "\<not> list_ex is_str [Num 5, Num 12, Num 0]"
    by (simp add: is_str_def)
  have m: "''avg_monthly_charge'' \<in> set example_reference"
    by (simp add: example_reference_def)
  from avg_monthly_charge_missing_at_zero_tenure[OF wf_example_batch c t nc nt]
  obtain avg where a: "avg_monthly_charge example_batch = Inr avg"
    and train: "\<forall>d. training_features example_batch = Inr d \<longrightarrow>
        getitem d ''avg_monthly_charge'' = Inr avg"
    and infer: "\<forall>h nc ref r h'. nc < length h \<and> h ! nc = example_batch \<and>
        preprocess_input nc ref h = (Inr r, h') \<longrightarrow>
        getitem (h' ! nc) ''avg_monthly_charge'' = Inr avg \<and>
        (''avg_monthly_charge'' \<in> set ref \<longrightarrow> getitem (h' ! r) ''avg_monthly_charge'' = Inr avg)"
    by blast
  have avg: "avg = [Num 50, Num 50, NaN]"
    using a eval_avg_monthly_charge_batch by simp
  obtain r h' where p: "preprocess_input 0 example_reference [example_batch] = (Inr r, h')"
    using eval_preprocess_input_batch by blast
  have "getitem (h' ! 0) ''avg_monthly_charge'' = Inr avg \<and>
      getitem (h' ! r) ''avg_monthly_charge'' = Inr avg"
    using infer[rule_format, of 0 "[example_batch]" example_reference r h'] p m by simp
  moreover have "\<exists>d. training_features example_batch = Inr d \<and>
      getitem d ''avg_monthly_charge'' = Inr avg"
    using train eval_training_features_batch by blast
  ultimately show ?thesis
    using wf_example_batch c t a p unfolding avg by blast
qed

text \<open>
  Claim C6. For a one-row record and any list of reference columns, the table
  \<^verbatim>\<open>preprocess_input\<close> returns has exactly the reference columns, in the reference
  order, whatever categories the record holds; a reference column the transformed record
  has keeps its value, and one it lacks holds 0. A table is returned whenever the record has
  the four required columns and no string in \<^verbatim>\<open>total_charges\<close> or \<^verbatim>\<open>tenure\<close>.
\<close>

theorem preprocess_input_schema_alignment:
  assumes "nc < length h" "is_record (h ! nc)"
  shows "(\<forall>r h'. preprocess_input nc ref h = (Inr r, h') \<longrightarrow>
            names (h' ! r) = ref \<and> length (cols (h' ! r)) = length ref \<and> nrows (h' ! r) = 1 \<and>
            (\<exists>d. training_features (h ! nc) = Inr d \<and>
               (\<forall>k\<in>set ref. getitem (h' ! r) k =
                  (if k \<in> set (names d) then getitem d k else Inr [Num 0])))) \<and>
         (set required_columns \<subseteq> set (names (h ! nc)) \<and>
          numeric_column (h ! nc) ''total_charges'' \<and> numeric_column (h ! nc) ''tenure''
          \<longrightarrow> (\<exists>r h'. preprocess_input nc ref h = (Inr r, h')))"
proof (intro conjI allI impI)
  fix r h'
  assume p: "preprocess_input nc ref h = (Inr r, h')"
  from preprocess_input_returned[OF assms(1) p] obtain d where
    t: "training_features (h ! nc) = Inr d" and s: "select (align ref d) ref = Inr (h' ! r)" and
    n: "nrows (h' ! r) = nrows d" and
    g: "\<forall>k\<in>set ref. getitem (h' ! r) k =
          (if k \<in> set (names d) then getitem d k else Inr (replicate (nrows d) (Num 0)))"
    by blast
  from training_features_record[OF assms(2) t] have dd: "distinct (names d)" "nrows d = 1"
    by simp_all
  show "names (h' ! r) = ref"
    using names_select[OF s] dd(1) by (simp add: distinct_names_align)
  then show "length (cols (h' ! r)) = length ref"
    by (metis length_map names_def)
  show "nrows (h' ! r) = 1" using n dd(2) by simp
  show "\<exists>d. training_features (h ! nc) = Inr d \<and>
          (\<forall>k\<in>set ref. getitem (h' ! r) k =
             (if k \<in> set (names d) then getitem d k else Inr [Num 0]))"
    using t g dd(2) by (intro exI[of _ d]) simp
next
  assume a: "set required_columns \<subseteq> set (names (h ! nc)) \<and>
          numeric_column (h ! nc) ''total_charges'' \<and> numeric_column (h ! nc) ''tenure''"
  from training_features_total[OF assms(2)] a obtain d where "training_features (h ! nc) = Inr d"
    by blast
  from preprocess_input_total[OF assms(1) this] show "\<exists>r h'. preprocess_input nc ref h = (Inr r, h')"
    by blast
qed

theorem preprocess_input_schema_alignment_witness:
  "0 < length [example_client] \<and> is_record ([example_client] ! 0) \<and>
   (\<exists>r h'. preprocess_input 0 example_reference [example_client] = (Inr r, h') \<and>
      names (h' ! r) = example_reference \<and> length (cols (h' ! r)) = 8 \<and>
      getitem (h' ! r) ''internet_service_unknown'' = Inr [Num 0])"
proof -
  have len: "0 < length [example_client]" by simp
  have rec: "is_record ([example_client] ! 0)" by (simp add: is_record_example_client)
  have u: "''internet_service_unknown'' \<in> set example_reference"
    by (simp add: example_reference_def)
  have l: "length example_reference = 8" by (simp add: example_reference_def)
  have d: "''internet_service_unknown'' \<notin> set (names \<lparr>nrows = 1, cols =
     [(''tenure'', [Num 5]), (''total_charges'', [Num 250]),
      (''avg_monthly_charge'', [Num 50]), (''is_short_contract'', [Num 1])]\<rparr>)"
    by (simp add: names_def)
  from preprocess_input_schema_alignment[OF len rec, of example_reference]
  show ?thesis
    using eval_preprocess_input_client eval_training_features_client len rec u l d
    by (auto simp del: One_nat_def)
qed

text \<open>
  Claim C7. Calling \<^verbatim>\<open>predict_churn_for_client\<close> a second time, on the store the
  first call left, with the same raw record, reference columns and classifier, gives the
  same result (the same report string, or the same exception), the same aligned feature
  row and the same probability.
\<close>

theorem inference_twice_same_row_and_probability:
  assumes "raw < length h"
  shows "fst (predict_churn_for_client model raw ref
                (snd (predict_churn_for_client model raw ref h)))
           = fst (predict_churn_for_client model raw ref h) \<and>
         feature_row raw ref (snd (predict_churn_for_client model raw ref h))
           = feature_row raw ref h \<and>
         fst (churn_probability model raw ref (snd (predict_churn_for_client model raw ref h)))
           = fst (churn_probability model raw ref h)"
proof -
  let ?h' = "snd (predict_churn_for_client model raw ref h)"
  have "?h' ! raw = h ! raw"
    using churn_probability_store[of h model raw ref] assms
    by (simp add: predict_churn_for_client_store)
  then show ?thesis
    by (simp add: predict_churn_for_client_value feature_row_eq churn_probability_value)
qed

theorem inference_twice_same_row_and_probability_witness:
  "0 < length [example_client] \<and>
   fst (predict_churn_for_client toy_model 0 example_reference
          (snd (predict_churn_for_client toy_model 0 example_reference [example_client])))
     = Inr ''Customer Churn Probability: 73.40%'' \<and>
   feature_row 0 example_reference
     (snd (predict_churn_for_client toy_model 0 example_reference [example_client]))
     = Inr example_row"
proof -
  have len: "0 < length [example_client]" by simp
  have row: "feature_row 0 example_reference [example_client] = Inr example_row"
    by (simp only: feature_row_eq nth_Cons_0 eval_aligned_features_client_row)
  from inference_twice_same_row_and_probability[OF len, of toy_model example_reference]
  show ?thesis
    using len row eval_predict_churn_for_client by (simp only: simp_thms)
qed

text \<open>
  Claim C8. For every value \<open>x\<close> of \<^verbatim>\<open>contract_type\<close>, the derived
  \<^verbatim>\<open>is_short_contract\<close> is 0 or 1, and it is 1 exactly when \<open>x\<close> is the string
  \<^verbatim>\<open>month-to-month\<close>; a differently cased spelling gives 0. Both paths store exactly
  this indicator of the \<^verbatim>\<open>contract_type\<close> column: the training path in the
  engineered table, \<^verbatim>\<open>preprocess_input\<close> in the table it was given and, when the
  reference columns name it, in the table it returns.
\<close>

theorem is_short_contract_indicator:
  "is_short_contract x \<in> {Num 0, Num 1} \<and>
   (is_short_contract x = Num 1 \<longleftrightarrow> x = Str ''month-to-month'') \<and>
   is_short_contract (Str ''Month-to-month'') = Num 0 \<and>
   is_short_contract (Str ''MONTH-TO-MONTH'') = Num 0 \<and>
   (\<forall>d. training_features df = Inr d \<longrightarrow>
      (\<exists>ct. getitem df ''contract_type'' = Inr ct \<and>
            getitem d ''is_short_contract'' = Inr (map is_short_contract ct))) \<and>
   (\<forall>r h'. nc < length h \<and> preprocess_input nc ref h = (Inr r, h') \<longrightarrow>
      (\<exists>ct. getitem (h ! nc) ''contract_type'' = Inr ct \<and>
            getitem (h' ! nc) ''is_short_contract'' = Inr (map is_short_contract ct) \<and>
            (''is_short_contract'' \<in> set ref \<longrightarrow>
               getitem (h' ! r) ''is_short_contract'' = Inr (map is_short_contract ct))))"
proof -
  have cell: "is_short_contract x \<in> {Num 0, Num 1} \<and>
      (is_short_contract x = Num 1 \<longleftrightarrow> x = Str ''month-to-month'')"
    by (simp add: is_short_contract_def)
  have cased: "is_short_contract (Str ''Month-to-month'') = Num 0"
      "is_short_contract (Str ''MONTH-TO-MONTH'') = Num 0"
    by (simp_all add: is_short_contract_def)
  have train: "\<exists>ct. getitem df ''contract_type'' = Inr ct \<and>
      getitem d ''is_short_contract'' = Inr (map is_short_contract ct)"
    if "training_features df = Inr d" for d
    using training_features_derived[OF that] by blast
  have infer: "\<exists>ct. getitem (h ! nc) ''contract_type'' = Inr ct \<and>
      getitem (h' ! nc) ''is_short_contract'' = Inr (map is_short_contract ct) \<and>
      (''is_short_contract'' \<in> set ref \<longrightarrow>
         getitem (h' ! r) ''is_short_contract'' = Inr (map is_short_contract ct))"
    if "nc < length h" "preprocess_input nc ref h = (Inr r, h')" for r h'
    using preprocess_input_derived[OF that] preprocess_input_returned_derived[OF that]
    by auto
  show ?thesis using cell cased train infer by blast
qed

theorem is_short_contract_indicator_witness:
  "is_short_contract (Str ''two-year'') = Num 0 \<and>
   (\<exists>d. training_features example_batch = Inr d \<and>
      getitem d ''is_short_contract'' = Inr [Num 1, Num 0, Num 0]) \<and>
   0 < length [example_client] \<and>
   (\<exists>r h'. preprocess_input 0 example_reference [example_client] = (Inr r, h') \<and>
      getitem (h' ! 0) ''is_short_contract'' = Inr [Num 1] \<and>
      getitem (h' ! r) ''is_short_contract'' = Inr [Num 1])"
proof -
  have ct: "getitem example_batch ''contract_type'' =
      Inr [Str ''month-to-month'', Str ''one-year'', Str ''two-year'']"
    by (simp add: getitem_def example_batch_def)
  have cc: "getitem example_client ''contract_type'' = Inr [Str ''month-to-month'']"
    by (simp add: getitem_def example_client_def)
  have m: "''is_short_contract'' \<in> set example_reference"
    by (simp add: example_reference_def)
  note T = is_short_contract_indicator[of "Str ''two-year''" example_batch 0 "[example_client]"
      example_reference]
  from T have cell: "is_short_contract (Str ''two-year'') = Num 0"
    by auto
  from T eval_training_features_batch ct
  have train: "\<exists>d. training_features example_batch = Inr d \<and>
      getitem d ''is_short_contract'' = Inr [Num 1, Num 0, Num 0]"
    by (auto simp: is_short_contract_def)
  from T have "\<forall>r h'. 0 < length [example_client] \<and>
      preprocess_input 0 example_reference [example_client] = (Inr r, h') \<longrightarrow>
      (\<exists>ct. getitem ([example_client] ! 0) ''contract_type'' = Inr ct \<and>
         getitem (h' ! 0) ''is_short_contract'' = Inr (map is_short_contract ct) \<and>
         (''is_short_contract'' \<in> set example_reference \<longrightarrow>
            getitem (h' ! r) ''is_short_contract'' = Inr (map is_short_contract ct)))"
    by blast
  from this[rule_format, of 2 "[example_client_after, example_row, example_row]"]
    eval_preprocess_input_client cc m
  have infer: "\<exists>r h'. preprocess_input 0 example_reference [example_client] = (Inr r, h') \<and>
      getitem (h' ! 0) ''is_short_contract'' = Inr [Num 1] \<and>
      getitem (h' ! r) ''is_short_contract'' = Inr [Num 1]"
    by (intro exI[of _ 2] exI[of _ "[example_client_after, example_row, example_row]"])
       (auto simp: is_short_contract_def)
  show ?thesis
    using cell train infer by simp
qed

text \<open>
  Claim C9. \<^verbatim>\<open>preprocess_input\<close> writes into the table it is given: when it returns,
  that very object has \<^verbatim>\<open>internet_service\<close> filled (every missing cell holds
  \<^verbatim>\<open>unknown\<close>, every other cell is kept) and the columns \<^verbatim>\<open>avg_monthly_charge\<close>
  and \<^verbatim>\<open>is_short_contract\<close> set. \<^verbatim>\<open>predict_churn_for_client\<close> hands it a copy, so
  after every call, failed or not, the caller's raw record and every other object the
  caller had are as before.
\<close>

theorem preprocess_input_mutates_argument_predict_copies:
  assumes "raw < length h"
  shows "(\<forall>r h'. preprocess_input raw ref h = (Inr r, h') \<longrightarrow>
            (\<exists>isv avg ct. getitem (h ! raw) ''internet_service'' = Inr isv \<and>
               avg_monthly_charge (h ! raw) = Inr avg \<and>
               getitem (h ! raw) ''contract_type'' = Inr ct \<and>
               h' ! raw =
                 setitem (setitem (setitem (h ! raw) ''internet_service'' (fillna (Str ''unknown'') isv))
                            ''avg_monthly_charge'' avg)
                   ''is_short_contract'' (map is_short_contract ct) \<and>
               getitem (h' ! raw) ''internet_service'' = Inr (fillna (Str ''unknown'') isv) \<and>
               getitem (h' ! raw) ''avg_monthly_charge'' = Inr avg \<and>
               getitem (h' ! raw) ''is_short_contract'' = Inr (map is_short_contract ct) \<and>
               (\<exists>filled. getitem (h' ! raw) ''internet_service'' = Inr filled \<and>
                  length filled = length isv \<and>
                  (\<forall>i<length isv.
                     (isv ! i = NaN \<longrightarrow> filled ! i = Str ''unknown'') \<and>
                     (isv ! i \<noteq> NaN \<longrightarrow> filled ! i = isv ! i))))) \<and>
         snd (predict_churn_for_client model raw ref h) ! raw = h ! raw \<and>
         take (length h) (snd (predict_churn_for_client model raw ref h)) = h"
proof (intro conjI allI impI)
  fix r h'
  assume "preprocess_input raw ref h = (Inr r, h')"
  from preprocess_input_derived[OF assms this] obtain isv avg ct where
    d: "getitem (h ! raw) ''internet_service'' = Inr isv"
      "avg_monthly_charge (h ! raw) = Inr avg"
      "getitem (h ! raw) ''contract_type'' = Inr ct"
      "h' ! raw = engineered (h ! raw) isv avg ct"
      "getitem (h' ! raw) ''internet_service'' = Inr (fillna (Str ''unknown'') isv)"
      "getitem (h' ! raw) ''avg_monthly_charge'' = Inr avg"
      "getitem (h' ! raw) ''is_short_contract'' = Inr (map is_short_contract ct)"
    by blast
  have cells: "length (fillna (Str ''unknown'') isv) = length isv \<and>
      (\<forall>i<length isv.
         (isv ! i = NaN \<longrightarrow> fillna (Str ''unknown'') isv ! i = Str ''unknown'') \<and>
         (isv ! i \<noteq> NaN \<longrightarrow> fillna (Str ''unknown'') isv ! i = isv ! i))"
    by (simp add: fillna_def)
  show "\<exists>isv avg ct. getitem (h ! raw) ''internet_service'' = Inr isv \<and>
               avg_monthly_charge (h ! raw) = Inr avg \<and>
               getitem (h ! raw) ''contract_type'' = Inr ct \<and>
               h' ! raw =
                 setitem (setitem (setitem (h ! raw) ''internet_service'' (fillna (Str ''unknown'') isv))
                            ''avg_monthly_charge'' avg)
                   ''is_short_contract'' (map is_short_contract ct) \<and>
               getitem (h' ! raw) ''internet_service'' = Inr (fillna (Str ''unknown'') isv) \<and>
               getitem (h' ! raw) ''avg_monthly_charge'' = Inr avg \<and>
               getitem (h' ! raw) ''is_short_contract'' = Inr (map is_short_contract ct) \<and>
               (\<exists>filled. getitem (h' ! raw) ''internet_service'' = Inr filled \<and>
                  length filled = length isv \<and>
                  (\<forall>i<length isv.
                     (isv ! i = NaN \<longrightarrow> filled ! i = Str ''unknown'') \<and>
                     (isv ! i \<noteq> NaN \<longrightarrow> filled ! i = isv ! i)))"
    using d cells
    by (intro exI[of _ isv] exI[of _ avg] exI[of _ ct] conjI
          exI[of _ "fillna (Str ''unknown'') isv"])
       (simp_all add: engineered_def)
next
  let ?h' = "snd (predict_churn_for_client model raw ref h)"
  have st: "length h \<le> length ?h'" "\<forall>a<length h. ?h' ! a = h ! a"
    using churn_probability_store[of h model raw ref]
    by (simp_all add: predict_churn_for_client_store)
  show "?h' ! raw = h ! raw"
    using st(2) assms by simp
  show "take (length h) ?h' = h"
    using st by (intro nth_equalityI) simp_all
qed

theorem preprocess_input_mutates_argument_predict_copies_witness:
  "0 < length [client_missing_internet] \<and>
   getitem client_missing_internet ''internet_service'' = Inr [NaN] \<and>
   (\<exists>r h'. preprocess_input 0 example_reference [client_missing_internet] = (Inr r, h') \<and>
      h' ! 0 = client_missing_internet_after \<and>
      getitem (h' ! 0) ''internet_service'' = Inr [Str ''unknown''] \<and>
      getitem (h' ! 0) ''avg_monthly_charge'' = Inr [Num 50] \<and>
      getitem (h' ! 0) ''is_short_contract'' = Inr [Num 1]) \<and>
   client_missing_internet_after \<noteq> client_missing_internet \<and>
   snd (predict_churn_for_client toy_model 0 example_reference [client_missing_internet]) ! 0
     = client_missing_internet"
proof -
  have len: "0 < length [client_missing_internet]" by simp
  have i: "getitem client_missing_internet ''internet_service'' = Inr [NaN]"
    by (simp add: getitem_def client_missing_internet_def)
  have ne: "client_missing_internet_after \<noteq> client_missing_internet"
    by (simp add: client_missing_internet_after_def client_missing_internet_def)
  note T = preprocess_input_mutates_argument_predict_copies[OF len,
      of example_reference toy_model]
  from T have copy: "snd (predict_churn_for_client toy_model 0 example_reference
      [client_missing_internet]) ! 0 = client_missing_internet"
    by simp
  from T eval_preprocess_input_missing_internet obtain isv avg ct filled where
    f: "getitem ([client_missing_internet] ! 0) ''internet_service'' = Inr isv"
      "getitem ([client_missing_internet_after, example_row, example_row] ! 0)
         ''internet_service'' = Inr filled"
      "length filled = length isv"
      "\<forall>i<length isv. (isv ! i = NaN \<longrightarrow> filled ! i = Str ''unknown'') \<and>
         (isv ! i \<noteq> NaN \<longrightarrow> filled ! i = isv ! i)"
    and a: "getitem ([client_missing_internet_after, example_row, example_row] ! 0)
         ''avg_monthly_charge'' = Inr avg"
      "avg_monthly_charge ([client_missing_internet] ! 0) = Inr avg"
    and s: "getitem ([client_missing_internet_after, example_row, example_row] ! 0)
         ''is_short_contract'' = Inr (map is_short_contract ct)"
      "getitem ([client_missing_internet] ! 0) ''contract_type'' = Inr ct"
    by blast
  have isv: "isv = [NaN]" using f(1) i by simp
  have "length filled = 1" "filled ! 0 = Str ''unknown''"
    using f(3,4) isv by simp_all
  then have filled: "filled = [Str ''unknown'']"
    by (cases filled) simp_all
  have avg: "avg = [Num 50]"
    using a by (simp add: getitem_def client_missing_internet_after_def)
  have short: "map is_short_contract ct = [Num 1]"
    using s by (simp add: getitem_def client_missing_internet_after_def)
  have "preprocess_input 0 example_reference [client_missing_internet] =
        (Inr 2, [client_missing_internet_after, example_row, example_row]) \<and>
      [client_missing_internet_after, example_row, example_row] ! 0
        = client_missing_internet_after \<and>
      getitem ([client_missing_internet_after, example_row, example_row] ! 0)
        ''internet_service'' = Inr [Str ''unknown''] \<and>
      getitem ([client_missing_internet_after, example_row, example_row] ! 0)
        ''avg_monthly_charge'' = Inr [Num 50] \<and>
      getitem ([client_missing_internet_after, example_row, example_row] ! 0)
        ''is_short_contract'' = Inr [Num 1]"
    using eval_preprocess_input_missing_internet f(2) a(1) s(1) filled avg short by simp
  then have "\<exists>r h'. preprocess_input 0 example_reference [client_missing_internet] = (Inr r, h') \<and>
      h' ! 0 = client_missing_internet_after \<and>
      getitem (h' ! 0) ''internet_service'' = Inr [Str ''unknown''] \<and>
      getitem (h' ! 0) ''avg_monthly_charge'' = Inr [Num 50] \<and>
      getitem (h' ! 0) ''is_short_contract'' = Inr [Num 1]"
    by blast
  then show ?thesis
    using len i ne copy by blast
qed

text \<open>
  Claim C10. In the training path the label mapping of line 70 raises nothing: every
  label that is not exactly \<^verbatim>\<open>No\<close> or \<^verbatim>\<open>Yes\<close> (a typo, a number, a missing
  value) becomes the missing value, so the mapped column need not be binary.
\<close>

theorem churn_label_unknown_values_become_missing:
  assumes "training_features df = Inr d" "getitem df ''churn'' = Inr churn"
  shows "\<exists>out. training_preprocess df = Inr out \<and>
           getitem out ''churn'' = Inr (map churn_label churn) \<and>
           (\<forall>i<length churn.
              (churn ! i = Str ''No'' \<longrightarrow> map churn_label churn ! i = Num 0) \<and>
              (churn ! i = Str ''Yes'' \<longrightarrow> map churn_label churn ! i = Num 1) \<and>
              (churn ! i \<noteq> Str ''No'' \<and> churn ! i \<noteq> Str ''Yes'' \<longrightarrow>
                 map churn_label churn ! i = NaN))"
proof -
  have k: "''churn'' \<in> set (names df)"
    using assms(2) by (rule getitem_Inr_names)
  have "getitem d ''churn'' = getitem df ''churn''"
    using assms(1) k by (rule getitem_training_features_kept) simp
  then have "training_preprocess df = Inr (setitem d ''churn'' (map churn_label churn))"
    using assms by (simp add: training_preprocess_def bind_err_def)
  then show ?thesis
    by (auto simp: getitem_setitem_same churn_label_def)
qed

theorem churn_label_unknown_values_become_missing_witness:
  "getitem mislabelled_batch ''churn'' = Inr [Str ''Yes'', Str ''no'', Num 1] \<and>
   (\<exists>out. training_preprocess mislabelled_batch = Inr out \<and>
      getitem out ''churn'' = Inr [Num 1, NaN, NaN])"
proof -
  have c: "getitem mislabelled_batch ''churn'' = Inr [Str ''Yes'', Str ''no'', Num 1]"
    by code_simp
  obtain d where t: "training_features mislabelled_batch = Inr d"
    using eval_training_features_mislabelled by blast
  from churn_label_unknown_values_become_missing[OF t c]
  show ?thesis
    using c by (auto simp: churn_label_def)
qed

end
